theory Spec2Isabelle
  imports Complex_Main "HOL-Library.AList"
begin

section \<open>Values of the host language\<close>

text \<open>
  The import pipeline receives a value of TypeScript type \<open>any\<close>: at run time the static
  types are erased, so both the validator and the transformer walk an untyped value.
  The model ranges over the values a JSON document denotes, plus \<open>undefined\<close> (the value
  of a missing property).  A number is a double: the finite ones are rationals, the other
  three are constructors of their own; no theorem below depends on rounding.  A string is
  a list of characters; an object is the list of its own properties in insertion order.
\<close>

datatype jnum = Fin rat | PosInf | NegInf | NaN

datatype json =
    JUndefined
  | JNull
  | JBool bool
  | JNum jnum
  | JStr string
  | JArr "json list"
  | JObj "(string \<times> json) list"

text \<open>
  A thrown value: an instance of \<open>Error\<close> with its message (the wording of the messages the
  engine itself raises is V8's; nothing below depends on it), or any other thrown value.
\<close>

datatype exn = Error string | NonError

datatype jstype = TUndefined | TObject | TBoolean | TNumber | TString

fun typeof :: "json \<Rightarrow> jstype" where
  "typeof JUndefined = TUndefined"
| "typeof JNull = TObject"
| "typeof (JBool b) = TBoolean"
| "typeof (JNum n) = TNumber"
| "typeof (JStr s) = TString"
| "typeof (JArr xs) = TObject"
| "typeof (JObj kvs) = TObject"

fun truthy :: "json \<Rightarrow> bool" where
  "truthy JUndefined = False"
| "truthy JNull = False"
| "truthy (JBool b) = b"
| "truthy (JNum (Fin r)) = (r \<noteq> 0)"
| "truthy (JNum NaN) = False"
| "truthy (JNum n) = True"
| "truthy (JStr s) = (s \<noteq> [])"
| "truthy (JArr xs) = True"
| "truthy (JObj kvs) = True"

fun is_nullish :: "json \<Rightarrow> bool" where
  "is_nullish JUndefined = True"
| "is_nullish JNull = True"
| "is_nullish v = False"

fun isArray :: "json \<Rightarrow> bool" where
  "isArray (JArr xs) = True"
| "isArray v = False"

text \<open>
  \<open>get_prop v k\<close> is the member read \<open>v.k\<close> on a value that is neither \<open>null\<close> nor
  \<open>undefined\<close>, for the member names the source reads (\<open>title\<close>, \<open>fields\<close>, \<open>id\<close>,
  \<open>label\<close>, \<open>length\<close>, ...): none of them is inherited from a prototype except
  \<open>length\<close> on arrays and strings, so the read is a lookup among the own properties.
  \<open>read_prop\<close> is the same read on any value: on \<open>null\<close> and \<open>undefined\<close> it throws.
\<close>

fun get_prop :: "json \<Rightarrow> string \<Rightarrow> json" where
  "get_prop (JObj kvs) k = (case map_of kvs k of Some v \<Rightarrow> v | None \<Rightarrow> JUndefined)"
| "get_prop (JArr xs) k = (if k = ''length'' then JNum (Fin (of_nat (length xs))) else JUndefined)"
| "get_prop (JStr s) k = (if k = ''length'' then JNum (Fin (of_nat (length s))) else JUndefined)"
| "get_prop v k = JUndefined"

definition read_prop :: "json \<Rightarrow> string \<Rightarrow> exn + json" where
  "read_prop v k =
     (if is_nullish v then Inl (Error (''Cannot read properties of null or undefined, reading '' @ k))
      else Inr (get_prop v k))"

text \<open>The optional chain \<open>v?.k\<close>.\<close>

definition opt_prop :: "json \<Rightarrow> string \<Rightarrow> json" where
  "opt_prop v k = (if is_nullish v then JUndefined else get_prop v k)"

text \<open>The text of a string value; read only where \<open>typeof v = TString\<close> has been tested.\<close>

fun the_str :: "json \<Rightarrow> string" where
  "the_str (JStr s) = s"
| "the_str v = []"

text \<open>
  \<open>String.prototype.trim\<close> on code units below 256: tab, line feed, vertical tab, form
  feed, carriage return, space and no-break space are stripped from both ends.
\<close>

definition is_space :: "char \<Rightarrow> bool" where
  "is_space c = (c \<in> set [CHR 0x09, CHR 0x0A, CHR 0x0B, CHR 0x0C, CHR 0x0D, CHR 0x20, CHR 0xA0])"

definition trim :: "string \<Rightarrow> string" where
  "trim s = rev (dropWhile is_space (rev (dropWhile is_space s)))"

text \<open>\<open>String.prototype.includes\<close>.\<close>

fun str_includes :: "string \<Rightarrow> string \<Rightarrow> bool" where
  "str_includes [] sub = (sub = [])"
| "str_includes (c # cs) sub = (take (length sub) (c # cs) = sub \<or> str_includes cs sub)"

text \<open>\<open>Array.prototype.join\<close> on strings.\<close>

fun join :: "string \<Rightarrow> string list \<Rightarrow> string" where
  "join sep [] = []"
| "join sep [x] = x"
| "join sep (x # y # ys) = x @ sep @ join sep (y # ys)"

text \<open>The decimal text of an array index, as a template literal prints it.\<close>

definition digit_char :: "nat \<Rightarrow> char" where
  "digit_char d = ''0123456789'' ! (d mod 10)"

fun string_of_nat :: "nat \<Rightarrow> string" where
  "string_of_nat n =
     (if n < 10 then [digit_char n]
      else string_of_nat (n div 10) @ [digit_char (n mod 10)])"

declare string_of_nat.simps [simp del]

text \<open>\<open>Number.isInteger\<close>.\<close>

fun isInteger :: "json \<Rightarrow> bool" where
  "isInteger (JNum (Fin r)) = (of_int \<lfloor>r\<rfloor> = r)"
| "isInteger v = False"

text \<open>
  The comparison of two numbers (\<open>Number::lessThan\<close>): \<open>None\<close> is the result
  \<open>undefined\<close> that a \<open>NaN\<close> operand gives.
\<close>

fun num_less :: "jnum \<Rightarrow> jnum \<Rightarrow> bool option" where
  "num_less NaN y = None"
| "num_less x NaN = None"
| "num_less (Fin a) (Fin b) = Some (a < b)"
| "num_less PosInf y = Some False"
| "num_less x PosInf = Some True"
| "num_less x NegInf = Some False"
| "num_less NegInf y = Some True"

section \<open>The internal form schema\<close>

text \<open>
  The types \<open>FormField\<close>, \<open>FormBlock\<close> and \<open>FormSchema\<close> are declared in a module of the
  application that the import pipeline only uses.  The transformer builds their values
  member by member, copying untyped values of the import, so the members hold \<open>json\<close>
  values; the \<open>validation\<close> and \<open>settings\<close> objects are property lists, written with
  \<open>AList.update\<close> (an assignment replaces the value of an existing key in place and appends
  a new key).

  The resolved type of a field is what indexing the table of supported types returns.
  The table is an object literal, so it inherits the members of \<open>Object.prototype\<close>:
  indexing it with one of their names yields that member, which is no \<open>json\<close> value.
\<close>

datatype tvalue = Val json | Member string

record FormField =
  f_id :: json
  f_type :: tvalue
  f_label :: json
  f_description :: json
  f_placeholder :: json
  f_required :: json
  f_validation :: "(string \<times> json) list"
  f_settings :: "(string \<times> json) list"
  f_options :: "json list option"

record BlockSettings =
  showStepNumber :: bool
  layout :: string
  spacing :: string

record FormBlock =
  b_id :: string
  b_title :: string
  b_description :: string
  b_fields :: "FormField list"
  b_settings :: BlockSettings

record FormSchema =
  s_blocks :: "FormBlock list"
  s_fields :: "FormField list"
  s_settings :: "(string \<times> json) list"
  s_logic :: json

section \<open>What the pipeline takes from its environment\<close>

text \<open>
  The pipeline calls into the language runtime and into one function of the application
  that is outside the import module.  They are parameters of the model, and every theorem
  holds for all of them:
  \<^item> \<open>JSON_parse\<close>: \<open>JSON.parse\<close>, which throws on text that is not JSON;
  \<^item> \<open>ToString\<close>: the conversion of a value that is not a string to a string (a property
    key or a template literal hole); it may throw;
  \<^item> \<open>IsLessThan\<close>: the relational comparison of two operands that are not both numbers
    (they are converted first, which may throw); \<open>None\<close> is the result \<open>undefined\<close>;
  \<^item> \<open>createDefaultFormSchema\<close>, called with the title, the description and the
    \<open>multiStep\<close> flag;
  \<^item> \<open>now_text\<close> and \<open>random_text\<close>: the text of \<open>Date.now()\<close> and of
    \<open>Math.random().toString(36).substr(2, 9)\<close> at the n-th generated identifier.
\<close>

record host =
  JSON_parse :: "string \<Rightarrow> exn + json"
  ToString :: "json \<Rightarrow> exn + string"
  IsLessThan :: "json \<Rightarrow> json \<Rightarrow> exn + bool option"
  createDefaultFormSchema :: "json \<Rightarrow> json \<Rightarrow> bool \<Rightarrow> exn + FormSchema"
  now_text :: "nat \<Rightarrow> string"
  random_text :: "nat \<Rightarrow> string"

definition compare :: "host \<Rightarrow> json \<Rightarrow> json \<Rightarrow> exn + bool option" where
  "compare h a b =
     (case (a, b) of
        (JNum x, JNum y) \<Rightarrow> Inr (num_less x y)
      | _ \<Rightarrow> IsLessThan h a b)"

text \<open>\<open>a < b\<close> and \<open>a >= b\<close>: both are false when the comparison is \<open>undefined\<close>.\<close>

definition less_than :: "host \<Rightarrow> json \<Rightarrow> json \<Rightarrow> exn + bool" where
  "less_than h a b = map_sum id (\<lambda>r. r = Some True) (compare h a b)"

definition greater_eq :: "host \<Rightarrow> json \<Rightarrow> json \<Rightarrow> exn + bool" where
  "greater_eq h a b = map_sum id (\<lambda>r. r = Some False) (compare h a b)"

text \<open>Short-circuit \<open>||\<close> and \<open>&&\<close> whose right operand may throw.\<close>

definition orE :: "bool \<Rightarrow> (exn + bool) \<Rightarrow> exn + bool" where
  "orE a b = (if a then Inr True else b)"

definition andE :: "bool \<Rightarrow> (exn + bool) \<Rightarrow> exn + bool" where
  "andE a b = (if a then b else Inr False)"

section \<open>The schema validator\<close>

datatype severity = SevError | SevWarning

record ValidationError =
  path :: string
  message :: string
  severity :: severity

record ValidationResult =
  isValid :: bool
  errors :: "ValidationError list"
  warnings :: "ValidationError list"
  fixableErrors :: "ValidationError list"

text \<open>The two private lists of a \<open>JsonSchemaValidator\<close> instance.\<close>

record validator =
  this_errors :: "ValidationError list"
  this_warnings :: "ValidationError list"

definition SUPPORTED_FIELD_TYPES :: "(string \<times> string) list" where
  "SUPPORTED_FIELD_TYPES =
     [(''text'', ''text''),
      (''short_text'', ''text''),
      (''email'', ''email''),
      (''textarea'', ''textarea''),
      (''long_text'', ''textarea''),
      (''number'', ''number''),
      (''date'', ''date''),
      (''time'', ''time''),
      (''phone'', ''phone''),
      (''file'', ''file''),
      (''signature'', ''signature''),
      (''rating'', ''rating''),
      (''slider'', ''slider''),
      (''tags'', ''tags''),
      (''address'', ''address''),
      (''link'', ''link''),
      (''radio'', ''radio''),
      (''select'', ''select''),
      (''checkbox'', ''checkbox''),
      (''checkboxes'', ''checkbox''),
      (''multi_select'', ''select''),
      (''section'', ''statement''),
      (''statement'', ''statement''),
      (''poll'', ''poll''),
      (''scheduler'', ''scheduler''),
      (''social'', ''social'')]"

text \<open>The members every object literal inherits from \<open>Object.prototype\<close>.\<close>

definition Object_prototype_members :: "string list" where
  "Object_prototype_members =
     [''constructor'', ''hasOwnProperty'', ''isPrototypeOf'', ''propertyIsEnumerable'',
      ''toLocaleString'', ''toString'', ''valueOf'', ''__proto__'',
      ''__defineGetter__'', ''__defineSetter__'', ''__lookupGetter__'', ''__lookupSetter__'']"

text \<open>The read \<open>SUPPORTED_FIELD_TYPES[key]\<close>: own entries first, then the prototype.\<close>

definition index_SUPPORTED_FIELD_TYPES :: "string \<Rightarrow> tvalue" where
  "index_SUPPORTED_FIELD_TYPES key =
     (case map_of SUPPORTED_FIELD_TYPES key of
        Some internal \<Rightarrow> Val (JStr internal)
      | None \<Rightarrow> if key \<in> set Object_prototype_members then Member key else Val JUndefined)"

fun tv_truthy :: "tvalue \<Rightarrow> bool" where
  "tv_truthy (Val v) = truthy v"
| "tv_truthy (Member m) = True"

definition getSupportedFieldTypes :: "string list" where
  "getSupportedFieldTypes = map fst SUPPORTED_FIELD_TYPES"

definition mapFieldType :: "string \<Rightarrow> tvalue" where
  "mapFieldType importType =
     (if tv_truthy (index_SUPPORTED_FIELD_TYPES importType)
      then index_SUPPORTED_FIELD_TYPES importType
      else Val (JStr importType))"

definition addError :: "string \<Rightarrow> string \<Rightarrow> severity \<Rightarrow> validator \<Rightarrow> validator" where
  "addError p m sev v =
     (if sev = SevError
      then v\<lparr>this_errors := this_errors v @ [\<lparr>path = p, message = m, severity = sev\<rparr>]\<rparr>
      else v\<lparr>this_warnings := this_warnings v @ [\<lparr>path = p, message = m, severity = sev\<rparr>]\<rparr>)"

definition addWarning :: "string \<Rightarrow> string \<Rightarrow> severity \<Rightarrow> validator \<Rightarrow> validator" where
  "addWarning p m sev v =
     v\<lparr>this_warnings := this_warnings v @ [\<lparr>path = p, message = m, severity = sev\<rparr>]\<rparr>"

definition isFixableError :: "ValidationError \<Rightarrow> bool" where
  "isFixableError error =
     (\<exists>fixable \<in> set [''Field required must be a boolean'',
                        ''Theme must be a string'',
                        ''Language must be a string'',
                        ''Success message must be a string'']. str_includes (message error) fixable)"

text \<open>
  A method of the validator changes the two lists and may throw; the lists as they are at
  the throw survive it (the handler in \<open>validate\<close> appends to them).  So a method is a
  function from the validator's state to the thrown value, if any, and the new state.
\<close>

type_synonym vm = "validator \<Rightarrow> exn option \<times> validator"

definition skip :: vm where
  "skip v = (None, v)"

definition step :: "(validator \<Rightarrow> validator) \<Rightarrow> vm" where
  "step f v = (None, f v)"

definition throw :: "exn \<Rightarrow> vm" where
  "throw e v = (Some e, v)"

text \<open>Statements in sequence: the first throw ends the run.\<close>

fun run_steps :: "vm list \<Rightarrow> vm" where
  "run_steps [] v = (None, v)"
| "run_steps (m # ms) v =
     (case m v of (None, v') \<Rightarrow> run_steps ms v' | (Some e, v') \<Rightarrow> (Some e, v'))"

text \<open>An \<open>if\<close> without \<open>else\<close>; in \<open>on_cond\<close> the condition itself may throw.\<close>

definition run_if :: "bool \<Rightarrow> vm \<Rightarrow> vm" where
  "run_if c m = (if c then m else skip)"

definition on_cond :: "(exn + bool) \<Rightarrow> vm \<Rightarrow> vm" where
  "on_cond c m = (case c of Inl e \<Rightarrow> throw e | Inr b \<Rightarrow> if b then m else skip)"

text \<open>\<open>Array.prototype.forEach\<close> with the element's index.\<close>

fun forEach_from :: "nat \<Rightarrow> ('a \<Rightarrow> nat \<Rightarrow> vm) \<Rightarrow> 'a list \<Rightarrow> vm" where
  "forEach_from i f [] v = (None, v)"
| "forEach_from i f (x # xs) v =
     (case f x i v of (None, v') \<Rightarrow> forEach_from (Suc i) f xs v' | (Some e, v') \<Rightarrow> (Some e, v'))"

definition forEach :: "('a \<Rightarrow> nat \<Rightarrow> vm) \<Rightarrow> 'a list \<Rightarrow> vm" where
  "forEach f xs = forEach_from 0 f xs"

text \<open>The elements of an array; read only where \<open>Array.isArray\<close> has been tested.\<close>

fun elems :: "json \<Rightarrow> json list" where
  "elems (JArr xs) = xs"
| "elems v = []"

text \<open>The call \<open>v.trim()\<close> on an untested value: only a string has the method.\<close>

fun call_trim :: "json \<Rightarrow> exn + string" where
  "call_trim (JStr s) = Inr (trim s)"
| "call_trim v = Inl (Error ''field.label.trim is not a function'')"

definition validateFieldValidation :: "host \<Rightarrow> json \<Rightarrow> string \<Rightarrow> vm" where
  "validateFieldValidation h validation p =
     (if typeof validation \<noteq> TObject \<or> validation = JNull
      then step (addError p ''Validation must be an object'' SevError)
      else run_steps
        [on_cond
           (andE (get_prop validation ''minLength'' \<noteq> JUndefined)
              (orE (\<not> isInteger (get_prop validation ''minLength''))
                 (less_than h (get_prop validation ''minLength'') (JNum (Fin 0)))))
           (step (addError (p @ ''.minLength'')
                    ''minLength must be a non-negative integer'' SevError)),
         on_cond
           (andE (get_prop validation ''maxLength'' \<noteq> JUndefined)
              (orE (\<not> isInteger (get_prop validation ''maxLength''))
                 (less_than h (get_prop validation ''maxLength'') (JNum (Fin 1)))))
           (step (addError (p @ ''.maxLength'')
                    ''maxLength must be a positive integer'' SevError)),
         on_cond
           (andE (get_prop validation ''minLength'' \<noteq> JUndefined)
              (andE (get_prop validation ''maxLength'' \<noteq> JUndefined)
                 (greater_eq h (get_prop validation ''minLength'')
                    (get_prop validation ''maxLength''))))
           (step (addError (p @ ''.minLength'')
                    ''minLength must be less than maxLength'' SevError)),
         run_if
           (truthy (get_prop validation ''pattern'')
            \<and> typeof (get_prop validation ''pattern'') \<noteq> TString)
           (step (addError (p @ ''.pattern'') ''Pattern must be a string'' SevError))])"

definition validateEmail :: "string \<Rightarrow> json \<Rightarrow> nat \<Rightarrow> vm" where
  "validateEmail p email index =
     run_if (typeof email \<noteq> TString)
       (step (addError (p @ ''.notifications.emails['' @ string_of_nat index @ '']'')
                ''Email must be a string'' SevError))"

definition validateSubmission :: "json \<Rightarrow> string \<Rightarrow> vm" where
  "validateSubmission submission p =
     (if typeof submission \<noteq> TObject \<or> submission = JNull
      then step (addError (p @ ''.submission'')
                   ''Submission settings must be an object'' SevError)
      else run_steps
        [run_if
           (get_prop submission ''redirectUrl'' \<noteq> JUndefined
            \<and> get_prop submission ''redirectUrl'' \<noteq> JNull
            \<and> typeof (get_prop submission ''redirectUrl'') \<noteq> TString)
           (step (addError (p @ ''.submission.redirectUrl'')
                    ''Redirect URL must be a string or null'' SevError)),
         run_if
           (truthy (get_prop submission ''successMessage'')
            \<and> typeof (get_prop submission ''successMessage'') \<noteq> TString)
           (step (addError (p @ ''.submission.successMessage'')
                    ''Success message must be a string'' SevError))])"

definition validateNotifications :: "json \<Rightarrow> string \<Rightarrow> vm" where
  "validateNotifications notifications p =
     (if typeof notifications \<noteq> TObject \<or> notifications = JNull
      then step (addError (p @ ''.notifications'')
                   ''Notifications settings must be an object'' SevError)
      else run_steps
        [run_if
           (get_prop notifications ''sendEmail'' \<noteq> JUndefined
            \<and> typeof (get_prop notifications ''sendEmail'') \<noteq> TBoolean)
           (step (addError (p @ ''.notifications.sendEmail'')
                    ''sendEmail must be a boolean'' SevError)),
         (if truthy (get_prop notifications ''emails'')
             \<and> \<not> isArray (get_prop notifications ''emails'')
          then step (addError (p @ ''.notifications.emails'')
                       ''emails must be an array'' SevError)
          else run_if (truthy (get_prop notifications ''emails''))
                 (forEach (validateEmail p) (elems (get_prop notifications ''emails''))))])"

text \<open>
  In the source the submission and the notifications checks are written inline in
  \<open>validateSettings\<close>; they are split off here only to keep each definition short.
\<close>

definition validateSettings :: "json \<Rightarrow> string \<Rightarrow> vm" where
  "validateSettings settings p =
     (if typeof settings \<noteq> TObject \<or> settings = JNull
      then step (addError p ''Settings must be an object'' SevError)
      else run_steps
        [run_if
           (truthy (get_prop settings ''theme'')
            \<and> typeof (get_prop settings ''theme'') \<noteq> TString)
           (step (addError (p @ ''.theme'') ''Theme must be a string'' SevError)),
         run_if
           (truthy (get_prop settings ''language'')
            \<and> typeof (get_prop settings ''language'') \<noteq> TString)
           (step (addError (p @ ''.language'') ''Language must be a string'' SevError)),
         run_if (truthy (get_prop settings ''submission''))
           (validateSubmission (get_prop settings ''submission'') p),
         run_if (truthy (get_prop settings ''notifications''))
           (validateNotifications (get_prop settings ''notifications'') p)])"

definition optionFields :: "string list" where
  "optionFields = [''radio'', ''select'', ''checkbox'', ''checkboxes'', ''multi_select'']"

definition validateOption :: "string \<Rightarrow> json \<Rightarrow> nat \<Rightarrow> vm" where
  "validateOption p option index =
     (if typeof option = TString then
        run_if (trim (the_str option) = [])
          (step (addError (p @ ''.options['' @ string_of_nat index @ '']'')
                   ''Option cannot be empty'' SevError))
      else if typeof option = TObject \<and> option \<noteq> JNull then
        run_steps
          [run_if
             (\<not> truthy (get_prop option ''id'') \<or> typeof (get_prop option ''id'') \<noteq> TString)
             (step (addError (p @ ''.options['' @ string_of_nat index @ ''].id'')
                      ''Option ID is required and must be a string'' SevError)),
           run_if
             (\<not> truthy (get_prop option ''label'')
              \<or> typeof (get_prop option ''label'') \<noteq> TString)
             (step (addError (p @ ''.options['' @ string_of_nat index @ ''].label'')
                      ''Option label is required and must be a string'' SevError))]
      else
        step (addError (p @ ''.options['' @ string_of_nat index @ '']'')
                ''Option must be a string or object with id and label'' SevError))"

definition validateSelections :: "host \<Rightarrow> json \<Rightarrow> string \<Rightarrow> vm" where
  "validateSelections h field p =
     run_steps
       [on_cond
          (andE (get_prop field ''minSelections'' \<noteq> JUndefined)
             (orE (\<not> isInteger (get_prop field ''minSelections''))
                (less_than h (get_prop field ''minSelections'') (JNum (Fin 0)))))
          (step (addError (p @ ''.minSelections'')
                   ''minSelections must be a non-negative integer'' SevError)),
        run_if (get_prop field ''maxSelections'' \<noteq> JUndefined)
          (run_steps
             [on_cond
                (orE (\<not> isInteger (get_prop field ''maxSelections''))
                   (less_than h (get_prop field ''maxSelections'') (JNum (Fin 1))))
                (step (addError (p @ ''.maxSelections'')
                         ''maxSelections must be a positive integer'' SevError)),
              on_cond
                (andE (get_prop field ''minSelections'' \<noteq> JUndefined)
                   (less_than h (get_prop field ''maxSelections'')
                      (get_prop field ''minSelections'')))
                (step (addError (p @ ''.maxSelections'')
                         ''maxSelections cannot be less than minSelections'' SevError))])]"

definition validateNumberRange :: "host \<Rightarrow> json \<Rightarrow> string \<Rightarrow> vm" where
  "validateNumberRange h field p =
     run_steps
       [run_if
          (get_prop field ''min'' \<noteq> JUndefined \<and> typeof (get_prop field ''min'') \<noteq> TNumber)
          (step (addError (p @ ''.min'') ''min value must be a number'' SevError)),
        run_if
          (get_prop field ''max'' \<noteq> JUndefined \<and> typeof (get_prop field ''max'') \<noteq> TNumber)
          (step (addError (p @ ''.max'') ''max value must be a number'' SevError)),
        run_if
          (get_prop field ''step'' \<noteq> JUndefined \<and> typeof (get_prop field ''step'') \<noteq> TNumber)
          (step (addError (p @ ''.step'') ''step value must be a number'' SevError)),
        on_cond
          (andE (get_prop field ''min'' \<noteq> JUndefined)
             (andE (get_prop field ''max'' \<noteq> JUndefined)
                (greater_eq h (get_prop field ''min'') (get_prop field ''max''))))
          (step (addError (p @ ''.min'') ''min value must be less than max value'' SevError))]"

text \<open>
  \<open>validateFieldTypeSpecific\<close>; the selection constraints and the number range are
  written inline in the source.  \<open>fieldType\<close> is whatever the member \<open>type\<close> holds.
\<close>

definition validateFieldTypeSpecific :: "host \<Rightarrow> json \<Rightarrow> string \<Rightarrow> vm" where
  "validateFieldTypeSpecific h field p =
     (let fieldType = get_prop field ''type'' in
      run_steps
        [run_if (fieldType \<in> set (map JStr optionFields))
           (run_steps
              [(if \<not> (truthy (get_prop field ''options'') \<and> isArray (get_prop field ''options''))
                then step (addError (p @ ''.options'')
                             (''Field type '' @ the_str fieldType @ '' requires an options array'')
                             SevError)
                else if elems (get_prop field ''options'') = []
                then step (addError (p @ ''.options'')
                             (''Field type '' @ the_str fieldType @ '' must have at least one option'')
                             SevError)
                else forEach (validateOption p) (elems (get_prop field ''options''))),
               run_if (fieldType = JStr ''checkboxes'' \<or> fieldType = JStr ''multi_select'')
                 (validateSelections h field p)]),
         run_if (fieldType = JStr ''number'' \<or> fieldType = JStr ''slider'')
           (validateNumberRange h field p),
         on_cond
           (andE (fieldType = JStr ''section'' \<or> fieldType = JStr ''statement'')
              (orE (\<not> truthy (get_prop field ''label''))
                 (map_sum id (\<lambda>t. t = []) (call_trim (get_prop field ''label'')))))
           (step (addWarning (p @ ''.label'')
                    ''Section fields should have descriptive labels'' SevWarning)),
         run_if (truthy (get_prop field ''validation''))
           (validateFieldValidation h (get_prop field ''validation'') (p @ ''.validation''))])"

definition validateField :: "host \<Rightarrow> json \<Rightarrow> string \<Rightarrow> vm" where
  "validateField h field p =
     (if \<not> truthy field \<or> typeof field \<noteq> TObject
      then step (addError p ''Field must be an object'' SevError)
      else run_steps
        [run_if
           (\<not> truthy (get_prop field ''id'')
            \<or> typeof (get_prop field ''id'') \<noteq> TString
            \<or> trim (the_str (get_prop field ''id'')) = [])
           (step (addError (p @ ''.id'')
                    ''Field ID is required and must be a non-empty string'' SevError)),
         (if \<not> truthy (get_prop field ''type'') \<or> typeof (get_prop field ''type'') \<noteq> TString
          then step (addError (p @ ''.type'')
                       ''Field type is required and must be a string'' SevError)
          else run_if
                 (\<not> tv_truthy (index_SUPPORTED_FIELD_TYPES (the_str (get_prop field ''type''))))
                 (step (addError (p @ ''.type'')
                          (''Unsupported field type: '' @ the_str (get_prop field ''type'')
                           @ ''. Supported types: '' @ join '', '' (map fst SUPPORTED_FIELD_TYPES))
                          SevError))),
         run_if
           (\<not> truthy (get_prop field ''label'')
            \<or> typeof (get_prop field ''label'') \<noteq> TString
            \<or> trim (the_str (get_prop field ''label'')) = [])
           (step (addError (p @ ''.label'')
                    ''Field label is required and must be a non-empty string'' SevError)),
         run_if
           (get_prop field ''required'' \<noteq> JUndefined
            \<and> typeof (get_prop field ''required'') \<noteq> TBoolean)
           (step (addError (p @ ''.required'') ''Field required must be a boolean'' SevError)),
         run_if
           (truthy (get_prop field ''placeholder'')
            \<and> typeof (get_prop field ''placeholder'') \<noteq> TString)
           (step (addError (p @ ''.placeholder'') ''Field placeholder must be a string'' SevError)),
         run_if
           (truthy (get_prop field ''helpText'')
            \<and> typeof (get_prop field ''helpText'') \<noteq> TString)
           (step (addError (p @ ''.helpText'') ''Field helpText must be a string'' SevError)),
         run_if
           (truthy (get_prop field ''description'')
            \<and> typeof (get_prop field ''description'') \<noteq> TString)
           (step (addError (p @ ''.description'') ''Field description must be a string'' SevError)),
         validateFieldTypeSpecific h field p])"

text \<open>
  \<open>validateFormSchema\<close>: the first member read throws on \<open>null\<close> and \<open>undefined\<close>; a
  \<open>fields\<close> member that is no array ends the method after its error (the \<open>return\<close>).
\<close>

definition validateFormSchema :: "host \<Rightarrow> json \<Rightarrow> vm" where
  "validateFormSchema h data =
     (if is_nullish data
      then throw (Error ''Cannot read properties of null or undefined, reading title'')
      else run_steps
        [run_if
           (\<not> truthy (get_prop data ''title'')
            \<or> typeof (get_prop data ''title'') \<noteq> TString
            \<or> trim (the_str (get_prop data ''title'')) = [])
           (step (addError ''title''
                    ''Form title is required and must be a non-empty string'' SevError)),
         run_if
           (truthy (get_prop data ''description'')
            \<and> typeof (get_prop data ''description'') \<noteq> TString)
           (step (addError ''description'' ''Form description must be a string'' SevError)),
         (if \<not> isArray (get_prop data ''fields'')
          then step (addError ''fields'' ''Fields must be an array'' SevError)
          else run_steps
            [run_if (elems (get_prop data ''fields'') = [])
               (step (addError ''fields'' ''Form must have at least one field'' SevError)),
             forEach
               (\<lambda>field index. validateField h field (''fields['' @ string_of_nat index @ '']''))
               (elems (get_prop data ''fields'')),
             run_if (truthy (get_prop data ''settings''))
               (validateSettings (get_prop data ''settings'') ''settings'')])])"

text \<open>
  \<open>validate\<close>: both lists are emptied, a string is parsed first, and any throw of the
  \<open>try\<close> block (of the parse or of the walk) is caught: the handler appends the root
  error to the errors recorded so far.
\<close>

definition validate :: "host \<Rightarrow> json \<Rightarrow> ValidationResult" where
  "validate h jsonData =
     (let this = \<lparr>this_errors = [], this_warnings = []\<rparr>;
          handler = (\<lambda>this'.
            let this'' = addError ''root''
                           ''Invalid JSON format. Please check your JSON syntax.'' SevError this'
            in \<lparr>isValid = False,
                errors = this_errors this'',
                warnings = this_warnings this'',
                fixableErrors = []\<rparr>)
      in case (if typeof jsonData = TString then JSON_parse h (the_str jsonData)
               else Inr jsonData) of
           Inl error \<Rightarrow> handler this
         | Inr data \<Rightarrow>
             (case validateFormSchema h data this of
                (None, this') \<Rightarrow>
                  \<lparr>isValid = (length (this_errors this') = 0),
                   errors = this_errors this',
                   warnings = this_warnings this',
                   fixableErrors = filter isFixableError (this_errors this')\<rparr>
              | (Some error, this') \<Rightarrow> handler this'))"

text \<open>\<open>validateJsonSchema\<close> creates a validator of its own for every call.\<close>

definition validateJsonSchema :: "host \<Rightarrow> json \<Rightarrow> ValidationResult" where
  "validateJsonSchema h jsonData = validate h jsonData"

section \<open>The import transformer\<close>

record ImportTransformResult =
  success :: bool
  formSchema :: "FormSchema option"
  errors_text :: "string list"
  warnings_text :: "string list"
  validationResult :: "ValidationResult option"

definition bindE :: "(exn + 'a) \<Rightarrow> ('a \<Rightarrow> exn + 'b) \<Rightarrow> exn + 'b" where
  "bindE m f = (case m of Inl e \<Rightarrow> Inl e | Inr x \<Rightarrow> f x)"

text \<open>\<open>Array.prototype.map\<close> with a callback that may throw.\<close>

fun mapE :: "('a \<Rightarrow> exn + 'b) \<Rightarrow> 'a list \<Rightarrow> exn + 'b list" where
  "mapE f [] = Inr []"
| "mapE f (x # xs) = bindE (f x) (\<lambda>y. bindE (mapE f xs) (\<lambda>ys. Inr (y # ys)))"

definition generateUniqueId :: "host \<Rightarrow> nat \<Rightarrow> string" where
  "generateUniqueId h n = ''field_'' @ now_text h n @ ''_'' @ random_text h n"

definition generateBlockId :: "host \<Rightarrow> nat \<Rightarrow> string" where
  "generateBlockId h n = ''block_'' @ now_text h n @ ''_'' @ random_text h n"

text \<open>
  \<open>mapFieldType\<close> is declared on strings; the transformer calls it with whatever the
  member \<open>type\<close> holds, and a value that is not a string is converted to the property key.
\<close>

definition mapFieldType_untyped :: "host \<Rightarrow> json \<Rightarrow> exn + tvalue" where
  "mapFieldType_untyped h importType =
     (case importType of
        JStr t \<Rightarrow> Inr (mapFieldType t)
      | _ \<Rightarrow> bindE (ToString h importType) (\<lambda>key.
               Inr (if tv_truthy (index_SUPPORTED_FIELD_TYPES key)
                    then index_SUPPORTED_FIELD_TYPES key
                    else Val importType)))"

definition transformOption :: "json \<Rightarrow> exn + json" where
  "transformOption option =
     (if typeof option = TString then Inr option
      else if typeof option = TObject then
        bindE (read_prop option ''label'') (\<lambda>label.
          if truthy label then Inr label else Inr (JStr ''Option''))
      else Inr (JStr ''Option''))"

text \<open>
  \<open>transformOptions\<close>: only an array has the method \<open>map\<close>; on any other value that
  passes the first test the call throws.
\<close>

definition transformOptions :: "json \<Rightarrow> exn + json list option" where
  "transformOptions importedOptions =
     (if \<not> truthy importedOptions \<or> get_prop importedOptions ''length'' = JNum (Fin 0)
      then Inr None
      else case importedOptions of
             JArr xs \<Rightarrow> bindE (mapE transformOption xs) (\<lambda>ys. Inr (Some ys))
           | _ \<Rightarrow> Inl (Error ''importedOptions.map is not a function''))"

text \<open>
  An object under construction: \<open>set_if c k v\<close> is the statement
  \<open>if (c) { obj.k = v }\<close>, and \<open>assign_all\<close> runs such statements in order.
\<close>

definition set_if ::
  "bool \<Rightarrow> string \<Rightarrow> json \<Rightarrow> (string \<times> json) list \<Rightarrow> (string \<times> json) list" where
  "set_if c k v obj = (if c then AList.update k v obj else obj)"

definition assign_all ::
  "((string \<times> json) list \<Rightarrow> (string \<times> json) list) list
     \<Rightarrow> (string \<times> json) list \<Rightarrow> (string \<times> json) list" where
  "assign_all stmts obj = fold (\<lambda>stmt acc. stmt acc) stmts obj"

definition transformValidation :: "json \<Rightarrow> (string \<times> json) list" where
  "transformValidation importedField =
     (let validation = get_prop importedField ''validation'' in
      assign_all
        [set_if (truthy (opt_prop validation ''minLength''))
           ''minLength'' (opt_prop validation ''minLength''),
         set_if (truthy (opt_prop validation ''maxLength''))
           ''maxLength'' (opt_prop validation ''maxLength''),
         set_if (truthy (opt_prop validation ''min''))
           ''min'' (opt_prop validation ''min''),
         set_if (truthy (opt_prop validation ''max''))
           ''max'' (opt_prop validation ''max''),
         set_if (truthy (opt_prop validation ''pattern''))
           ''pattern'' (opt_prop validation ''pattern''),
         set_if (get_prop importedField ''min'' \<noteq> JUndefined)
           ''min'' (get_prop importedField ''min''),
         set_if (get_prop importedField ''max'' \<noteq> JUndefined)
           ''max'' (get_prop importedField ''max''),
         set_if (truthy (get_prop importedField ''required''))
           ''requiredMessage'' (JStr ''This field is required'')]
        [])"

text \<open>The \<open>switch\<close> on the resolved type: a \<open>case\<close> label matches by strict equality.\<close>

definition fieldSpecificSettings ::
  "json \<Rightarrow> tvalue \<Rightarrow> (string \<times> json) list \<Rightarrow> (string \<times> json) list" where
  "fieldSpecificSettings importedField fieldType =
     (if fieldType = Val (JStr ''textarea'') then
        set_if (truthy (get_prop importedField ''rows'')) ''rows'' (get_prop importedField ''rows'')
      else if fieldType = Val (JStr ''number'') \<or> fieldType = Val (JStr ''slider'') then
        assign_all
          [set_if (get_prop importedField ''min'' \<noteq> JUndefined)
             ''min'' (get_prop importedField ''min''),
           set_if (get_prop importedField ''max'' \<noteq> JUndefined)
             ''max'' (get_prop importedField ''max''),
           set_if (get_prop importedField ''step'' \<noteq> JUndefined)
             ''step'' (get_prop importedField ''step''),
           set_if (fieldType = Val (JStr ''slider'')
                   \<and> get_prop importedField ''defaultValue'' \<noteq> JUndefined)
             ''defaultValue'' (get_prop importedField ''defaultValue'')]
      else if fieldType = Val (JStr ''checkbox'') then
        assign_all
          [set_if (get_prop importedField ''minSelections'' \<noteq> JUndefined)
             ''min'' (get_prop importedField ''minSelections''),
           set_if (get_prop importedField ''maxSelections'' \<noteq> JUndefined)
             ''max'' (get_prop importedField ''maxSelections'')]
      else if fieldType = Val (JStr ''select'') then
        set_if (get_prop importedField ''type'' = JStr ''multi_select'')
          ''allowMultiple'' (JBool True)
      else if fieldType = Val (JStr ''statement'') then
        assign_all
          [AList.update ''statementHeading'' (get_prop importedField ''label''),
           set_if (truthy (get_prop importedField ''description''))
             ''statementDescription'' (get_prop importedField ''description''),
           AList.update ''statementAlign'' (JStr ''left''),
           AList.update ''statementSize'' (JStr ''md'')]
      else if fieldType = Val (JStr ''rating'') then
        assign_all
          [AList.update ''starCount'' (JNum (Fin 5)),
           AList.update ''icon'' (JStr ''star''),
           AList.update ''color'' (JStr ''#fbbf24'')]
      else if fieldType = Val (JStr ''tags'') then
        assign_all
          [AList.update ''maxTags'' (JNum (Fin 10)),
           AList.update ''allowDuplicates'' (JBool False)]
      else (\<lambda>obj. obj))"

definition transformFieldSettings :: "json \<Rightarrow> tvalue \<Rightarrow> (string \<times> json) list" where
  "transformFieldSettings importedField fieldType =
     assign_all
       [set_if (truthy (get_prop importedField ''helpText''))
          ''helpText'' (get_prop importedField ''helpText''),
        set_if (get_prop importedField ''defaultValue'' \<noteq> JUndefined)
          ''defaultValue'' (get_prop importedField ''defaultValue''),
        set_if (get_prop importedField ''defaultChecked'' \<noteq> JUndefined)
          ''defaultValue'' (get_prop importedField ''defaultChecked''),
        fieldSpecificSettings importedField fieldType]
       []"

text \<open>
  \<open>transformField\<close>, for the field at position \<open>index\<close> of the import.  The first member
  read throws on \<open>null\<close> and \<open>undefined\<close>.
\<close>

definition transformField :: "host \<Rightarrow> nat \<Rightarrow> json \<Rightarrow> exn + FormField" where
  "transformField h index importedField =
     (if is_nullish importedField
      then Inl (Error ''Cannot read properties of null or undefined, reading id'')
      else
        let fieldId = (if truthy (get_prop importedField ''id'') then get_prop importedField ''id''
                       else JStr (generateUniqueId h index))
        in bindE (mapFieldType_untyped h (get_prop importedField ''type'')) (\<lambda>mappedType.
           bindE (transformOptions (get_prop importedField ''options'')) (\<lambda>options.
             Inr \<lparr>f_id = fieldId,
                  f_type = mappedType,
                  f_label = get_prop importedField ''label'',
                  f_description = get_prop importedField ''description'',
                  f_placeholder = get_prop importedField ''placeholder'',
                  f_required = (if is_nullish (get_prop importedField ''required'') then JBool False
                                else get_prop importedField ''required''),
                  f_validation = transformValidation importedField,
                  f_settings = transformFieldSettings importedField mappedType,
                  f_options = (case options of
                                 None \<Rightarrow> None
                               | Some ys \<Rightarrow> if length ys > 0 then Some ys else None)\<rparr>)))"

fun transformFields :: "host \<Rightarrow> nat \<Rightarrow> json list \<Rightarrow> exn + FormField list" where
  "transformFields h index [] = Inr []"
| "transformFields h index (field # rest) =
     bindE (transformField h index field) (\<lambda>y.
       bindE (transformFields h (Suc index) rest) (\<lambda>ys. Inr (y # ys)))"

text \<open>The own properties an object spread \<open>{...v}\<close> copies.\<close>

fun spread :: "json \<Rightarrow> (string \<times> json) list" where
  "spread (JObj kvs) = kvs"
| "spread (JArr xs) = zip (map string_of_nat [0..<length xs]) xs"
| "spread (JStr s) = zip (map string_of_nat [0..<length s]) (map (\<lambda>c. JStr [c]) s)"
| "spread v = []"

text \<open>The read \<open>v?.[0]\<close>.\<close>

fun first_elem :: "json \<Rightarrow> json" where
  "first_elem (JArr xs) = (case xs of [] \<Rightarrow> JUndefined | x # rest \<Rightarrow> x)"
| "first_elem (JStr s) = (case s of [] \<Rightarrow> JUndefined | c # rest \<Rightarrow> JStr [c])"
| "first_elem (JObj kvs) = get_prop (JObj kvs) ''0''"
| "first_elem v = JUndefined"

text \<open>A template literal hole.\<close>

definition to_text :: "host \<Rightarrow> json \<Rightarrow> exn + string" where
  "to_text h v = (case v of JStr s \<Rightarrow> Inr s | _ \<Rightarrow> ToString h v)"

definition transformSettings ::
  "host \<Rightarrow> json \<Rightarrow> (string \<times> json) list \<Rightarrow> exn + (string \<times> json) list" where
  "transformSettings h importedSettings baseSettings =
     (let s1 = set_if (truthy (get_prop importedSettings ''theme''))
                 ''theme''
                 (JObj (AList.update ''primaryColor''
                          (JStr (if get_prop importedSettings ''theme'' = JStr ''dark''
                                 then ''#1f2937'' else ''#3b82f6''))
                          (spread (get_prop (JObj baseSettings) ''theme''))))
                 baseSettings;
          submission = get_prop importedSettings ''submission'';
          s2 = (if truthy submission then
                  assign_all
                    [set_if (truthy (get_prop submission ''successMessage''))
                       ''successMessage'' (get_prop submission ''successMessage''),
                     set_if (truthy (get_prop submission ''redirectUrl''))
                       ''redirectUrl'' (get_prop submission ''redirectUrl'')]
                    s1
                else s1);
          notifications = get_prop importedSettings ''notifications''
      in bindE
           (if truthy notifications then
              bindE (to_text h (get_prop (JObj s2) ''title'')) (\<lambda>title.
                Inr (AList.update ''notifications''
                       (JObj
                          [(''enabled'',
                            if is_nullish (get_prop notifications ''sendEmail'') then JBool False
                            else get_prop notifications ''sendEmail''),
                           (''email'',
                            if truthy (first_elem (get_prop notifications ''emails''))
                            then first_elem (get_prop notifications ''emails'')
                            else JStr []),
                           (''subject'', JStr (''New form submission: '' @ title)),
                           (''message'', JStr ''A new form submission has been received.'')])
                       s2))
            else Inr s2)
           (\<lambda>s3.
              Inr (set_if (truthy (get_prop importedSettings ''language''))
                     ''rtl''
                     (JBool (get_prop importedSettings ''language''
                             \<in> set (map JStr [''ar'', ''he'', ''ur'', ''fa''])))
                     s3)))"

text \<open>
  \<open>createFormSchema\<close>.  The argument is the value the caller passed in, cast to the
  import's type; only an array has the method \<open>map\<close>.
\<close>

definition createFormSchema :: "host \<Rightarrow> json \<Rightarrow> exn + FormSchema" where
  "createFormSchema h importedSchema =
     bindE (read_prop importedSchema ''title'') (\<lambda>title.
     bindE (createDefaultFormSchema h title
              (if truthy (get_prop importedSchema ''description'')
               then get_prop importedSchema ''description'' else JStr [])
              False) (\<lambda>baseSchema.
     bindE (case get_prop importedSchema ''fields'' of
              JArr xs \<Rightarrow> transformFields h 0 xs
            | JUndefined \<Rightarrow> Inl (Error ''Cannot read properties of undefined, reading map'')
            | JNull \<Rightarrow> Inl (Error ''Cannot read properties of null, reading map'')
            | _ \<Rightarrow> Inl (Error ''importedSchema.fields.map is not a function'')) (\<lambda>transformedFields.
     let mainBlock =
           \<lparr>b_id = generateBlockId h (length transformedFields),
            b_title = ''Main'',
            b_description = [],
            b_fields = transformedFields,
            b_settings = \<lparr>showStepNumber = False, layout = ''single'', spacing = ''normal''\<rparr>\<rparr>
     in bindE (transformSettings h
                 (if truthy (get_prop importedSchema ''settings'')
                  then get_prop importedSchema ''settings'' else JObj [])
                 (s_settings baseSchema)) (\<lambda>settings.
          Inr \<lparr>s_blocks = [mainBlock],
               s_fields = transformedFields,
               s_settings = settings,
               s_logic = s_logic baseSchema\<rparr>))))"

definition format_diagnostic :: "ValidationError \<Rightarrow> string" where
  "format_diagnostic e = path e @ '': '' @ message e"

text \<open>
  \<open>transformJsonToFormSchema\<close>: \<open>try_block\<close> is the body of its \<open>try\<close>, whose throws
  the handler turns into a result.  The value \<open>Inr r\<close> of the function is the promise
  resolved with \<open>r\<close>; \<open>Inl e\<close> would be the promise rejected with \<open>e\<close>.
\<close>

definition try_block :: "host \<Rightarrow> json \<Rightarrow> exn + ImportTransformResult" where
  "try_block h jsonData =
     (let validationResult = validateJsonSchema h jsonData in
      if \<not> isValid validationResult then
        Inr \<lparr>success = False,
             formSchema = None,
             errors_text = map format_diagnostic (errors validationResult),
             warnings_text = map format_diagnostic (warnings validationResult),
             validationResult = Some validationResult\<rparr>
      else
        bindE (createFormSchema h jsonData) (\<lambda>formSchema.
          Inr \<lparr>success = True,
               formSchema = Some formSchema,
               errors_text = [],
               warnings_text = map format_diagnostic (warnings validationResult),
               validationResult = Some validationResult\<rparr>))"

definition transformJsonToFormSchema :: "host \<Rightarrow> json \<Rightarrow> exn + ImportTransformResult" where
  "transformJsonToFormSchema h jsonData =
     (case try_block h jsonData of
        Inr result \<Rightarrow> Inr result
      | Inl error \<Rightarrow>
          Inr \<lparr>success = False,
               formSchema = None,
               errors_text =
                 [''Failed to transform JSON: ''
                  @ (case error of Error m \<Rightarrow> m | NonError \<Rightarrow> ''Unknown error'')],
               warnings_text = [],
               validationResult = None\<rparr>)"

section \<open>Notions used in the proofs\<close>

text \<open>
  Two properties of a validator method: it never removes a recorded error, and it ends
  with a throw or with at least one recorded error.
\<close>

definition keeps_errors :: "vm \<Rightarrow> bool" where
  "keeps_errors m = (\<forall>v. set (this_errors v) \<subseteq> set (this_errors (snd (m v))))"

definition throws_or_records :: "vm \<Rightarrow> bool" where
  "throws_or_records m = (\<forall>v. fst (m v) \<noteq> None \<or> this_errors (snd (m v)) \<noteq> [])"

section \<open>Example inputs\<close>

text \<open>
  A concrete environment for the examples.  Its parser is called only on the texts
  \<open>null\<close>, \<open>[]\<close> and \<open>{not json\<close>, where it answers as \<open>JSON.parse\<close> does; its
  conversions and comparisons of values that are not numbers are never called by the
  examples.
\<close>

definition sample_host :: host where
  "sample_host =
     \<lparr>JSON_parse = (\<lambda>s. if s = ''null'' then Inr JNull
                         else if s = ''[]'' then Inr (JArr [])
                         else Inl (Error ''Unexpected token'')),
      ToString = (\<lambda>v. Inr ''[object Object]''),
      IsLessThan = (\<lambda>a b. Inr None),
      createDefaultFormSchema = (\<lambda>title description multiStep.
        Inr \<lparr>s_blocks = [], s_fields = [],
             s_settings = [(''title'', title), (''description'', description),
                           (''multiStep'', JBool multiStep)],
             s_logic = JArr []\<rparr>),
      now_text = (\<lambda>n. ''1700000000000''),
      random_text = (\<lambda>n. ''k3x9'' @ string_of_nat n)\<rparr>"

text \<open>The multi-select scenario of the specification.\<close>

definition multi_select_field :: json where
  "multi_select_field =
     JObj [(''id'', JStr ''f1''), (''type'', JStr ''multi_select''), (''label'', JStr ''Pick''),
           (''options'', JArr [JStr ''A'', JStr ''B'']),
           (''minSelections'', JNum (Fin 1)), (''maxSelections'', JNum (Fin 5))]"

definition multi_select_doc :: json where
  "multi_select_doc = JObj [(''title'', JStr ''T''), (''fields'', JArr [multi_select_field])]"

text \<open>
  A text field that carries an \<open>options\<close> member holding a string: the validator checks
  \<open>options\<close> only on the option-bearing types, so the document is valid.
\<close>

definition text_options_doc :: json where
  "text_options_doc =
     JObj [(''title'', JStr ''T''),
           (''fields'', JArr [JObj [(''id'', JStr ''f1''), (''type'', JStr ''text''),
                                    (''label'', JStr ''L''), (''options'', JStr ''abc'')]])]"

text \<open>A section whose label is the empty string, in an otherwise valid document.\<close>

definition section_doc :: json where
  "section_doc =
     JObj [(''title'', JStr ''T''),
           (''fields'', JArr [JObj [(''id'', JStr ''s1''), (''type'', JStr ''section''),
                                    (''label'', JStr [])]])]"

text \<open>The empty-title, empty-fields scenario, and the same document with a \<open>settings\<close> member.\<close>

definition empty_doc :: json where
  "empty_doc = JObj [(''title'', JStr []), (''fields'', JArr [])]"

definition empty_doc_with_settings :: json where
  "empty_doc_with_settings =
     JObj [(''title'', JStr []), (''fields'', JArr []), (''settings'', JNum (Fin 5))]"

text \<open>
  A valid number field whose \<open>validation\<close> object holds \<open>minLength: 0\<close> and \<open>min: 3\<close>,
  next to the root-level \<open>min: 1\<close> and \<open>max: 10\<close>.
\<close>

definition boundary_field :: json where
  "boundary_field =
     JObj [(''id'', JStr ''f1''), (''type'', JStr ''number''), (''label'', JStr ''Age''),
           (''min'', JNum (Fin 1)), (''max'', JNum (Fin 10)),
           (''validation'', JObj [(''minLength'', JNum (Fin 0)), (''min'', JNum (Fin 3))])]"

definition boundary_doc :: json where
  "boundary_doc = JObj [(''title'', JStr ''T''), (''fields'', JArr [boundary_field])]"

text \<open>A text field whose \<open>validation\<close> object holds values that are all truthy.\<close>

definition bounded_text_field :: json where
  "bounded_text_field =
     JObj [(''id'', JStr ''f1''), (''type'', JStr ''text''), (''label'', JStr ''Name''),
           (''validation'',
            JObj [(''minLength'', JNum (Fin 2)), (''maxLength'', JNum (Fin 50)),
                  (''min'', JNum (Fin 1)), (''max'', JNum (Fin 9)),
                  (''pattern'', JStr ''^a'')])]"

text \<open>A slider and a checkbox that carry both \<open>defaultValue\<close> and \<open>defaultChecked\<close>.\<close>

definition slider_field :: json where
  "slider_field =
     JObj [(''id'', JStr ''f1''), (''type'', JStr ''slider''), (''label'', JStr ''Level''),
           (''defaultValue'', JNum (Fin 5)), (''defaultChecked'', JBool True)]"

definition slider_doc :: json where
  "slider_doc = JObj [(''title'', JStr ''T''), (''fields'', JArr [slider_field])]"

definition checkbox_field :: json where
  "checkbox_field =
     JObj [(''id'', JStr ''f1''), (''type'', JStr ''checkbox''), (''label'', JStr ''Agree''),
           (''options'', JArr [JStr ''Yes'']),
           (''defaultValue'', JStr ''Yes''), (''defaultChecked'', JBool True)]"

text \<open>A field whose type is the name of a member inherited from \<open>Object.prototype\<close>.\<close>

definition constructor_field :: json where
  "constructor_field =
     JObj [(''id'', JStr ''f1''), (''type'', JStr ''constructor''), (''label'', JStr ''L'')]"

definition constructor_doc :: json where
  "constructor_doc = JObj [(''title'', JStr ''T''), (''fields'', JArr [constructor_field])]"

text \<open>A plain select field.\<close>

definition select_field :: json where
  "select_field =
     JObj [(''id'', JStr ''f2''), (''type'', JStr ''select''), (''label'', JStr ''One''),
           (''options'', JArr [JStr ''A''])]"

section \<open>Properties of the validator\<close>

lemmas vm_defs = run_if_def on_cond_def step_def skip_def throw_def andE_def orE_def forEach_def
  addError_def addWarning_def

lemmas validator_defs = validate_def validateFormSchema_def validateField_def
  validateFieldTypeSpecific_def validateFieldValidation_def validateSelections_def
  validateNumberRange_def validateOption_def validateSettings_def validateSubmission_def
  validateNotifications_def validateEmail_def optionFields_def index_SUPPORTED_FIELD_TYPES_def
  SUPPORTED_FIELD_TYPES_def Object_prototype_members_def trim_def is_space_def
  isFixableError_def less_than_def greater_eq_def compare_def

lemma invalid_has_errors:
  assumes "\<not> isValid (validate h jsonData)"
  shows "errors (validate h jsonData) \<noteq> []"
proof (cases "if typeof jsonData = TString then JSON_parse h (the_str jsonData) else Inr jsonData")
  case (Inl e)
  then show ?thesis
    by (simp add: validate_def Let_def addError_def)
next
  case (Inr data)
  obtain thrown this' where
    run: "validateFormSchema h data \<lparr>this_errors = [], this_warnings = []\<rparr> = (thrown, this')"
    by (cases "validateFormSchema h data \<lparr>this_errors = [], this_warnings = []\<rparr>")
  show ?thesis
    using assms Inr run by (cases thrown) (simp_all add: validate_def Let_def addError_def)
qed

text \<open>
  C2: for every input value the result of \<open>validate\<close> has \<open>isValid\<close> true exactly when
  its \<open>errors\<close> list is empty; \<open>isValid\<close> is a function of the errors alone, so the
  warnings never affect it.
\<close>

theorem validate_isValid_iff_errors_empty:
  "isValid (validate h jsonData) = (errors (validate h jsonData) = [])"
  by (simp add: validate_def Let_def addError_def split: sum.splits prod.splits option.splits)

theorem validate_isValid_iff_errors_empty_witness:
  "isValid (validate sample_host multi_select_doc)
   \<and> errors (validate sample_host multi_select_doc) = []
   \<and> \<not> isValid (validate sample_host JNull)"
proof -
  have a: "errors (validate sample_host multi_select_doc) = []"
    by code_simp
  have b: "length (errors (validate sample_host JNull)) = 1"
    by code_simp
  show ?thesis
    using a b validate_isValid_iff_errors_empty [of sample_host multi_select_doc]
      validate_isValid_iff_errors_empty [of sample_host JNull]
    by auto
qed

text \<open>
  C6: for every string input that \<open>JSON.parse\<close> rejects, \<open>validate\<close> returns the invalid
  result whose only error is the one at path \<open>root\<close>, with no warning and no fixable
  error: no structural check has run.
\<close>

theorem validate_unparseable_string:
  "JSON_parse h s = Inl e \<Longrightarrow>
   validate h (JStr s) =
     \<lparr>isValid = False,
      errors = [\<lparr>path = ''root'',
                 message = ''Invalid JSON format. Please check your JSON syntax.'',
                 severity = SevError\<rparr>],
      warnings = [],
      fixableErrors = []\<rparr>"
  by (simp add: validate_def addError_def)

theorem validate_unparseable_string_witness:
  "JSON_parse sample_host ''{not json'' = Inl (Error ''Unexpected token'')
   \<and> validate sample_host (JStr ''{not json'') =
     \<lparr>isValid = False,
      errors = [\<lparr>path = ''root'',
                 message = ''Invalid JSON format. Please check your JSON syntax.'',
                 severity = SevError\<rparr>],
      warnings = [],
      fixableErrors = []\<rparr>"
proof -
  have p: "JSON_parse sample_host ''{not json'' = Inl (Error ''Unexpected token'')"
    by (simp add: sample_host_def)
  show ?thesis
    using p validate_unparseable_string [OF p] by simp
qed

text \<open>
  C8: for the input \<open>{title: "", fields: []}\<close> one call of \<open>validate\<close> returns an invalid
  result with an error at path \<open>title\<close> and an error at path \<open>fields\<close>; the empty
  array does not end the method, since a \<open>settings\<close> member added to the same document
  is still checked after it.
\<close>

theorem validate_empty_title_empty_fields:
  "validate h empty_doc =
     \<lparr>isValid = False,
      errors = [\<lparr>path = ''title'',
                 message = ''Form title is required and must be a non-empty string'',
                 severity = SevError\<rparr>,
                \<lparr>path = ''fields'',
                 message = ''Form must have at least one field'',
                 severity = SevError\<rparr>],
      warnings = [],
      fixableErrors = []\<rparr>
   \<and> errors (validate h empty_doc_with_settings) =
       [\<lparr>path = ''title'',
         message = ''Form title is required and must be a non-empty string'',
         severity = SevError\<rparr>,
        \<lparr>path = ''fields'',
         message = ''Form must have at least one field'',
         severity = SevError\<rparr>,
        \<lparr>path = ''settings'',
         message = ''Settings must be an object'',
         severity = SevError\<rparr>]"
  by (simp add: empty_doc_def empty_doc_with_settings_def validate_def validateFormSchema_def
        validateSettings_def vm_defs isFixableError_def)

theorem validate_empty_title_empty_fields_witness:
  "\<not> isValid (validate sample_host empty_doc)
   \<and> map path (errors (validate sample_host empty_doc)) = [''title'', ''fields'']
   \<and> map path (errors (validate sample_host empty_doc_with_settings))
       = [''title'', ''fields'', ''settings'']"
  using validate_empty_title_empty_fields [of sample_host] by simp

text \<open>
  C3 (the code departs from the claim): a section whose label is blank gets the warning
  at \<open>fields[0].label\<close>, but the label check that \<open>validateField\<close> runs for every type
  has already recorded an error at the same path, so the otherwise valid document is invalid.
\<close>

theorem section_blank_label_is_error:
  "validate h section_doc =
     \<lparr>isValid = False,
      errors = [\<lparr>path = ''fields[0].label'',
                 message = ''Field label is required and must be a non-empty string'',
                 severity = SevError\<rparr>],
      warnings = [\<lparr>path = ''fields[0].label'',
                   message = ''Section fields should have descriptive labels'',
                   severity = SevWarning\<rparr>],
      fixableErrors = []\<rparr>"
  by (simp add: section_doc_def validator_defs vm_defs string_of_nat.simps digit_char_def)

text \<open>
  The recorded errors only grow: every method of the validator keeps the errors it finds,
  also when it throws.
\<close>

lemma keeps_errorsD:
  assumes "keeps_errors m" and "m v = (ex, v')"
  shows "set (this_errors v) \<subseteq> set (this_errors v')"
proof -
  from assms(1) have "set (this_errors v) \<subseteq> set (this_errors (snd (m v)))"
    by (simp add: keeps_errors_def)
  with assms(2) show ?thesis by simp
qed

lemma throws_or_recordsD:
  assumes "throws_or_records m" and "m v = (None, v')"
  shows "this_errors v' \<noteq> []"
proof -
  from assms(1) have "fst (m v) \<noteq> None \<or> this_errors (snd (m v)) \<noteq> []"
    by (simp add: throws_or_records_def)
  with assms(2) show ?thesis by simp
qed

lemma keeps_skip: "keeps_errors skip"
  by (simp add: keeps_errors_def skip_def)

lemma keeps_throw: "keeps_errors (throw e)"
  by (simp add: keeps_errors_def throw_def)

lemma keeps_addError: "keeps_errors (step (addError p m sev))"
  by (auto simp: keeps_errors_def step_def addError_def)

lemma keeps_addWarning: "keeps_errors (step (addWarning p m sev))"
  by (simp add: keeps_errors_def step_def addWarning_def)

lemma keeps_run_if: "keeps_errors m \<Longrightarrow> keeps_errors (run_if c m)"
  by (simp add: run_if_def keeps_skip)

lemma keeps_on_cond: "keeps_errors m \<Longrightarrow> keeps_errors (on_cond c m)"
  by (simp add: on_cond_def keeps_skip keeps_throw split: sum.splits)

lemma keeps_if: "keeps_errors a \<Longrightarrow> keeps_errors b \<Longrightarrow> keeps_errors (if c then a else b)"
  by simp

lemma keeps_run_steps: "list_all keeps_errors ms \<Longrightarrow> keeps_errors (run_steps ms)"
proof (induction ms)
  case Nil
  show ?case by (simp add: keeps_errors_def)
next
  case (Cons m ms)
  then have m: "keeps_errors m" and ms: "keeps_errors (run_steps ms)"
    by simp_all
  show ?case
    unfolding keeps_errors_def
  proof
    fix v
    obtain ex v' where r: "m v = (ex, v')" by (cases "m v")
    from m r have a: "set (this_errors v) \<subseteq> set (this_errors v')"
      by (rule keeps_errorsD)
    from ms have b: "set (this_errors v') \<subseteq> set (this_errors (snd (run_steps ms v')))"
      by (simp add: keeps_errors_def)
    from a b r show "set (this_errors v) \<subseteq> set (this_errors (snd (run_steps (m # ms) v)))"
      by (cases ex) auto
  qed
qed

lemma keeps_forEach_from:
  assumes "\<And>x i. keeps_errors (f x i)"
  shows "keeps_errors (forEach_from i f xs)"
  unfolding keeps_errors_def
proof
  fix v
  show "set (this_errors v) \<subseteq> set (this_errors (snd (forEach_from i f xs v)))"
  proof (induction xs arbitrary: i v)
    case Nil
    show ?case by simp
  next
    case (Cons x xs)
    obtain ex v' where r: "f x i v = (ex, v')" by (cases "f x i v")
    from assms [of x i] r have a: "set (this_errors v) \<subseteq> set (this_errors v')"
      by (rule keeps_errorsD)
    from a r Cons.IH [where i = "Suc i" and v = v'] show ?case
      by (cases ex) auto
  qed
qed

lemma keeps_forEach: "(\<And>x i. keeps_errors (f x i)) \<Longrightarrow> keeps_errors (forEach f xs)"
  by (simp add: forEach_def keeps_forEach_from)

lemmas keeps_rules = keeps_skip keeps_throw keeps_addError keeps_addWarning keeps_run_if
  keeps_on_cond keeps_run_steps keeps_forEach

lemma keeps_validateOption: "keeps_errors (validateOption p option index)"
  by (simp add: validateOption_def keeps_rules)

lemma keeps_validateEmail: "keeps_errors (validateEmail p email index)"
  by (simp add: validateEmail_def keeps_rules)

lemma keeps_validateFieldValidation: "keeps_errors (validateFieldValidation h validation p)"
  by (simp add: validateFieldValidation_def keeps_rules)

lemma keeps_validateSelections: "keeps_errors (validateSelections h field p)"
  by (simp add: validateSelections_def keeps_rules)

lemma keeps_validateNumberRange: "keeps_errors (validateNumberRange h field p)"
  by (simp add: validateNumberRange_def keeps_rules)

lemma keeps_validateFieldTypeSpecific: "keeps_errors (validateFieldTypeSpecific h field p)"
  by (simp add: validateFieldTypeSpecific_def Let_def keeps_rules keeps_validateOption
        keeps_validateSelections keeps_validateNumberRange keeps_validateFieldValidation)

lemma keeps_validateField: "keeps_errors (validateField h field p)"
  by (simp add: validateField_def keeps_rules keeps_validateFieldTypeSpecific)

lemma keeps_validateSettings: "keeps_errors (validateSettings settings p)"
  by (simp add: validateSettings_def validateSubmission_def validateNotifications_def
        keeps_rules keeps_validateEmail)

lemma records_addError: "throws_or_records (step (addError p m SevError))"
  by (simp add: throws_or_records_def step_def addError_def)

lemma records_here:
  assumes "throws_or_records m" and "list_all keeps_errors ms"
  shows "throws_or_records (run_steps (m # ms))"
  unfolding throws_or_records_def
proof
  fix v
  obtain ex v' where r: "m v = (ex, v')" by (cases "m v")
  show "fst (run_steps (m # ms) v) \<noteq> None \<or> this_errors (snd (run_steps (m # ms) v)) \<noteq> []"
  proof (cases ex)
    case (Some e)
    with r show ?thesis by simp
  next
    case None
    with assms(1) r have "this_errors v' \<noteq> []"
      by (simp add: throws_or_recordsD)
    moreover from keeps_run_steps [OF assms(2)]
    have "set (this_errors v') \<subseteq> set (this_errors (snd (run_steps ms v')))"
      by (simp add: keeps_errors_def)
    ultimately have "this_errors (snd (run_steps ms v')) \<noteq> []"
      by auto
    with None r show ?thesis by simp
  qed
qed

lemma records_later:
  assumes "throws_or_records (run_steps ms)"
  shows "throws_or_records (run_steps (m # ms))"
  unfolding throws_or_records_def
proof
  fix v
  obtain ex v' where r: "m v = (ex, v')" by (cases "m v")
  from assms have "fst (run_steps ms v') \<noteq> None \<or> this_errors (snd (run_steps ms v')) \<noteq> []"
    by (simp add: throws_or_records_def)
  with r show "fst (run_steps (m # ms) v) \<noteq> None \<or> this_errors (snd (run_steps (m # ms) v)) \<noteq> []"
    by (cases ex) auto
qed

lemma records_forEach_from:
  assumes "x \<in> set xs" and "\<And>i. throws_or_records (f x i)" and "\<And>y i. keeps_errors (f y i)"
  shows "throws_or_records (forEach_from i f xs)"
  unfolding throws_or_records_def
proof
  fix v
  from assms(1)
  show "fst (forEach_from i f xs v) \<noteq> None \<or> this_errors (snd (forEach_from i f xs v)) \<noteq> []"
  proof (induction xs arbitrary: i v)
    case Nil
    then show ?case by simp
  next
    case (Cons y ys)
    obtain ex v' where r: "f y i v = (ex, v')" by (cases "f y i v")
    show ?case
    proof (cases ex)
      case (Some e)
      with r show ?thesis by simp
    next
      case None
      show ?thesis
      proof (cases "x = y")
        case True
        with assms(2) [of i] r None have "this_errors v' \<noteq> []"
          by (simp add: throws_or_recordsD)
        moreover from keeps_forEach_from [of f "Suc i" ys] assms(3)
        have "set (this_errors v') \<subseteq> set (this_errors (snd (forEach_from (Suc i) f ys v')))"
          by (simp add: keeps_errors_def)
        ultimately have "this_errors (snd (forEach_from (Suc i) f ys v')) \<noteq> []"
          by auto
        with None r show ?thesis by simp
      next
        case False
        with Cons.prems have "x \<in> set ys" by simp
        from Cons.IH [OF this, where i = "Suc i" and v = v'] None r show ?thesis by simp
      qed
    qed
  qed
qed

text \<open>
  The label check of \<open>validateField\<close> does not look at the type: every field object
  whose label is missing or blank gets the error, a section or a statement as any other,
  and a document that contains such a field is invalid.
\<close>

lemma blank_label_recorded:
  assumes "truthy field" and "typeof field = TObject"
    and "\<not> truthy (get_prop field ''label'')
         \<or> typeof (get_prop field ''label'') \<noteq> TString
         \<or> trim (the_str (get_prop field ''label'')) = []"
  shows "throws_or_records (validateField h field p)"
proof -
  have "throws_or_records
          (run_if
             (\<not> truthy (get_prop field ''label'')
              \<or> typeof (get_prop field ''label'') \<noteq> TString
              \<or> trim (the_str (get_prop field ''label'')) = [])
             (step (addError (p @ ''.label'')
                      ''Field label is required and must be a non-empty string'' SevError)))"
    using assms(3) by (simp add: run_if_def records_addError)
  then show ?thesis
    using assms(1,2)
    unfolding validateField_def
    by (simp add: records_later records_here keeps_rules keeps_validateFieldTypeSpecific)
qed

lemma blank_label_invalidates:
  assumes "typeof doc \<noteq> TString"
    and "get_prop doc ''fields'' = JArr xs"
    and "field \<in> set xs"
    and "truthy field" and "typeof field = TObject"
    and "\<not> truthy (get_prop field ''label'')
         \<or> typeof (get_prop field ''label'') \<noteq> TString
         \<or> trim (the_str (get_prop field ''label'')) = []"
  shows "\<not> isValid (validate h doc)"
proof -
  from assms(2) have nn: "\<not> is_nullish doc"
    by (cases doc) simp_all
  have each: "\<And>i. throws_or_records
                 (validateField h field (''fields['' @ string_of_nat i @ '']''))"
    using assms(4-6) by (rule blank_label_recorded)
  have loop: "throws_or_records
          (forEach (\<lambda>field index. validateField h field (''fields['' @ string_of_nat index @ '']'')) xs)"
    unfolding forEach_def
    by (rule records_forEach_from [OF assms(3)]) (rule each, rule keeps_validateField)
  have "throws_or_records (validateFormSchema h doc)"
    using nn assms(2) loop
    unfolding validateFormSchema_def
    by (simp add: records_later records_here keeps_rules keeps_validateSettings)
  then have "fst (validateFormSchema h doc \<lparr>this_errors = [], this_warnings = []\<rparr>) \<noteq> None
           \<or> this_errors (snd (validateFormSchema h doc \<lparr>this_errors = [], this_warnings = []\<rparr>)) \<noteq> []"
    by (simp add: throws_or_records_def)
  then show ?thesis
    using assms(1)
    by (auto simp: validate_def Let_def split: prod.splits option.splits)
qed

section \<open>Properties of the transformer\<close>

lemma transformField_parts:
  assumes "transformField h i f = Inr tf"
  shows "f_validation tf = transformValidation f"
    and "f_settings tf = transformFieldSettings f (f_type tf)"
    and "mapFieldType_untyped h (get_prop f ''type'') = Inr (f_type tf)"
  using assms
  by (auto simp: transformField_def bindE_def Let_def split: if_splits sum.splits)

lemma assign_all_Nil: "assign_all [] obj = obj"
  by (simp add: assign_all_def)

lemma assign_all_Cons: "assign_all (stmt # stmts) obj = assign_all stmts (stmt obj)"
  by (simp add: assign_all_def)

lemma map_of_set_if:
  "map_of (set_if c k v obj) k' = (if c \<and> k' = k then Some v else map_of obj k')"
  by (simp add: set_if_def update_conv')

lemma map_of_update:
  "map_of (AList.update k v obj) k' = (if k' = k then Some v else map_of obj k')"
  by (simp add: update_conv')

lemmas obj_simps = assign_all_Nil assign_all_Cons map_of_set_if map_of_update

text \<open>
  C1: for every input value \<open>transformJsonToFormSchema\<close> resolves with a result (a throw
  of the validation, of the default-schema constructor or of the transformation is turned
  into one), and in that result \<open>success\<close> is true exactly when \<open>formSchema\<close> is present
  and the error list is empty.
\<close>

theorem transformJsonToFormSchema_resolves:
  "\<exists>r. transformJsonToFormSchema h jsonData = Inr r
       \<and> (success r = (formSchema r \<noteq> None \<and> errors_text r = []))"
proof (cases "isValid (validateJsonSchema h jsonData)")
  case True
  then show ?thesis
    by (cases "createFormSchema h jsonData")
       (simp_all add: transformJsonToFormSchema_def try_block_def bindE_def Let_def)
next
  case False
  then have "errors (validateJsonSchema h jsonData) \<noteq> []"
    by (simp add: validateJsonSchema_def invalid_has_errors)
  with False show ?thesis
    by (simp add: transformJsonToFormSchema_def try_block_def Let_def)
qed

text \<open>
  The three ways to a result: a valid document that transforms, a valid document whose
  transformation throws, and an input on which the validation itself throws.
\<close>

theorem transformJsonToFormSchema_resolves_witness:
  "(\<exists>r. transformJsonToFormSchema sample_host multi_select_doc = Inr r
        \<and> success r \<and> formSchema r \<noteq> None \<and> errors_text r = [])
   \<and> (\<exists>r. transformJsonToFormSchema sample_host text_options_doc = Inr r
        \<and> \<not> success r \<and> formSchema r = None)
   \<and> (\<exists>r. transformJsonToFormSchema sample_host JNull = Inr r
        \<and> \<not> success r \<and> formSchema r = None)"
proof -
  have a: "map_sum id success (transformJsonToFormSchema sample_host multi_select_doc) = Inr True"
    by code_simp
  have b: "map_sum id formSchema (transformJsonToFormSchema sample_host text_options_doc) = Inr None"
    by code_simp
  have c: "map_sum id formSchema (transformJsonToFormSchema sample_host JNull) = Inr None"
    by code_simp
  show ?thesis
    using a b c transformJsonToFormSchema_resolves [of sample_host multi_select_doc]
      transformJsonToFormSchema_resolves [of sample_host text_options_doc]
      transformJsonToFormSchema_resolves [of sample_host JNull]
    by auto
qed

text \<open>
  C4 as stated fails on \<open>boundary_field\<close>, a valid field: its \<open>validation\<close> object holds
  \<open>minLength: 0\<close> and \<open>min: 3\<close>, and the transformed field's validation object has no
  \<open>minLength\<close> and has \<open>min: 1\<close>, the root-level value.
\<close>

theorem validation_copy_counterexample:
  "isValid (validate sample_host boundary_doc)
   \<and> opt_prop (get_prop boundary_field ''validation'') ''minLength'' = JNum (Fin 0)
   \<and> opt_prop (get_prop boundary_field ''validation'') ''min'' = JNum (Fin 3)
   \<and> map_sum id f_validation (transformField sample_host 0 boundary_field)
       = Inr [(''min'', JNum (Fin 1)), (''max'', JNum (Fin 10))]"
proof -
  have a: "isValid (validate sample_host boundary_doc)"
    by code_simp
  have b: "opt_prop (get_prop boundary_field ''validation'') ''minLength'' = JNum (Fin 0)"
    by code_simp
  have c: "opt_prop (get_prop boundary_field ''validation'') ''min'' = JNum (Fin 3)"
    by code_simp
  have d: "map_sum id f_validation (transformField sample_host 0 boundary_field)
             = Inr [(''min'', JNum (Fin 1)), (''max'', JNum (Fin 10))]"
    by code_simp
  from a b c d show ?thesis by simp
qed

text \<open>
  C4 as amended: for every transformed field, a truthy \<open>minLength\<close>, \<open>maxLength\<close> or
  \<open>pattern\<close> of the import's \<open>validation\<close> object is the value of the same key in the
  output's validation object; for \<open>min\<close> and \<open>max\<close> the output holds the root-level
  member of the field when there is one, and otherwise the truthy value of the
  \<open>validation\<close> object.  (Nothing is said here about a value that is not truthy, such as
  \<open>0\<close> or the empty string.)
\<close>

theorem validation_copied_when_truthy:
  assumes "transformField h i field = Inr tf"
  shows "(truthy (opt_prop (get_prop field ''validation'') ''minLength'') \<longrightarrow>
            map_of (f_validation tf) ''minLength''
              = Some (opt_prop (get_prop field ''validation'') ''minLength''))
       \<and> (truthy (opt_prop (get_prop field ''validation'') ''maxLength'') \<longrightarrow>
            map_of (f_validation tf) ''maxLength''
              = Some (opt_prop (get_prop field ''validation'') ''maxLength''))
       \<and> (truthy (opt_prop (get_prop field ''validation'') ''pattern'') \<longrightarrow>
            map_of (f_validation tf) ''pattern''
              = Some (opt_prop (get_prop field ''validation'') ''pattern''))
       \<and> (get_prop field ''min'' \<noteq> JUndefined \<longrightarrow>
            map_of (f_validation tf) ''min'' = Some (get_prop field ''min''))
       \<and> (get_prop field ''min'' = JUndefined
            \<and> truthy (opt_prop (get_prop field ''validation'') ''min'') \<longrightarrow>
            map_of (f_validation tf) ''min''
              = Some (opt_prop (get_prop field ''validation'') ''min''))
       \<and> (get_prop field ''max'' \<noteq> JUndefined \<longrightarrow>
            map_of (f_validation tf) ''max'' = Some (get_prop field ''max''))
       \<and> (get_prop field ''max'' = JUndefined
            \<and> truthy (opt_prop (get_prop field ''validation'') ''max'') \<longrightarrow>
            map_of (f_validation tf) ''max''
              = Some (opt_prop (get_prop field ''validation'') ''max''))"
  unfolding transformField_parts(1) [OF assms]
  by (simp add: transformValidation_def Let_def obj_simps)

theorem validation_copied_when_truthy_witness:
  "transformField sample_host 0 bounded_text_field
     = Inr \<lparr>f_id = JStr ''f1'', f_type = Val (JStr ''text''), f_label = JStr ''Name'',
            f_description = JUndefined, f_placeholder = JUndefined, f_required = JBool False,
            f_validation = [(''minLength'', JNum (Fin 2)), (''maxLength'', JNum (Fin 50)),
                            (''min'', JNum (Fin 1)), (''max'', JNum (Fin 9)),
                            (''pattern'', JStr ''^a'')],
            f_settings = [], f_options = None\<rparr>
   \<and> truthy (opt_prop (get_prop bounded_text_field ''validation'') ''minLength'')
   \<and> truthy (opt_prop (get_prop bounded_text_field ''validation'') ''maxLength'')
   \<and> truthy (opt_prop (get_prop bounded_text_field ''validation'') ''pattern'')
   \<and> get_prop bounded_text_field ''min'' = JUndefined
   \<and> truthy (opt_prop (get_prop bounded_text_field ''validation'') ''min'')
   \<and> get_prop bounded_text_field ''max'' = JUndefined
   \<and> truthy (opt_prop (get_prop bounded_text_field ''validation'') ''max'')
   \<and> transformField sample_host 0 boundary_field
     = Inr \<lparr>f_id = JStr ''f1'', f_type = Val (JStr ''number''), f_label = JStr ''Age'',
            f_description = JUndefined, f_placeholder = JUndefined, f_required = JBool False,
            f_validation = [(''min'', JNum (Fin 1)), (''max'', JNum (Fin 10))],
            f_settings = [(''min'', JNum (Fin 1)), (''max'', JNum (Fin 10))],
            f_options = None\<rparr>
   \<and> get_prop boundary_field ''min'' = JNum (Fin 1)
   \<and> get_prop boundary_field ''max'' = JNum (Fin 10)
   \<and> map_of [(''min'', JNum (Fin 1)), (''max'', JNum (Fin 10))] ''min''
       = Some (get_prop boundary_field ''min'')
   \<and> map_of [(''min'', JNum (Fin 1)), (''max'', JNum (Fin 10))] ''max''
       = Some (get_prop boundary_field ''max'')"
proof -
  have e: "transformField sample_host 0 bounded_text_field
     = Inr \<lparr>f_id = JStr ''f1'', f_type = Val (JStr ''text''), f_label = JStr ''Name'',
            f_description = JUndefined, f_placeholder = JUndefined, f_required = JBool False,
            f_validation = [(''minLength'', JNum (Fin 2)), (''maxLength'', JNum (Fin 50)),
                            (''min'', JNum (Fin 1)), (''max'', JNum (Fin 9)),
                            (''pattern'', JStr ''^a'')],
            f_settings = [], f_options = None\<rparr>"
    by code_simp
  have b: "transformField sample_host 0 boundary_field
     = Inr \<lparr>f_id = JStr ''f1'', f_type = Val (JStr ''number''), f_label = JStr ''Age'',
            f_description = JUndefined, f_placeholder = JUndefined, f_required = JBool False,
            f_validation = [(''min'', JNum (Fin 1)), (''max'', JNum (Fin 10))],
            f_settings = [(''min'', JNum (Fin 1)), (''max'', JNum (Fin 10))],
            f_options = None\<rparr>"
    by code_simp
  have v: "get_prop bounded_text_field ''validation''
             = JObj [(''minLength'', JNum (Fin 2)), (''maxLength'', JNum (Fin 50)),
                     (''min'', JNum (Fin 1)), (''max'', JNum (Fin 9)),
                     (''pattern'', JStr ''^a'')]"
    by (simp add: bounded_text_field_def)
  have r: "get_prop bounded_text_field ''min'' = JUndefined"
          "get_prop bounded_text_field ''max'' = JUndefined"
          "get_prop boundary_field ''min'' = JNum (Fin 1)"
          "get_prop boundary_field ''max'' = JNum (Fin 10)"
    by (simp_all add: bounded_text_field_def boundary_field_def)
  show ?thesis
    using validation_copied_when_truthy [OF e] validation_copied_when_truthy [OF b]
    by (simp add: e b v r opt_prop_def)
qed

text \<open>
  C5 as stated fails on \<open>slider_field\<close>, a valid field with both members present: its
  transformed settings hold \<open>defaultValue: 5\<close>, the imported \<open>defaultValue\<close>, not the
  imported \<open>defaultChecked\<close>.
\<close>

theorem defaultChecked_counterexample:
  "isValid (validate sample_host slider_doc)
   \<and> get_prop slider_field ''defaultValue'' = JNum (Fin 5)
   \<and> get_prop slider_field ''defaultChecked'' = JBool True
   \<and> map_sum id (\<lambda>tf. (f_type tf, map_of (f_settings tf) ''defaultValue''))
        (transformField sample_host 0 slider_field)
       = Inr (Val (JStr ''slider''), Some (JNum (Fin 5)))"
proof -
  have a: "isValid (validate sample_host slider_doc)"
    by code_simp
  have b: "get_prop slider_field ''defaultValue'' = JNum (Fin 5)"
          "get_prop slider_field ''defaultChecked'' = JBool True"
    by (simp_all add: slider_field_def)
  have c: "map_sum id (\<lambda>tf. (f_type tf, map_of (f_settings tf) ''defaultValue''))
             (transformField sample_host 0 slider_field)
           = Inr (Val (JStr ''slider''), Some (JNum (Fin 5)))"
    by code_simp
  from a b c show ?thesis by simp
qed

text \<open>
  C5 as amended: for every transformed field on which both \<open>defaultValue\<close> and
  \<open>defaultChecked\<close> are present, \<open>settings.defaultValue\<close> is the imported
  \<open>defaultChecked\<close> unless the resolved type is \<open>slider\<close>; for a slider the branch of
  that type writes the imported \<open>defaultValue\<close> again, and it is the value kept.
\<close>

theorem defaultChecked_precedence_except_slider:
  assumes "transformField h i field = Inr tf"
    and "get_prop field ''defaultValue'' \<noteq> JUndefined"
    and "get_prop field ''defaultChecked'' \<noteq> JUndefined"
  shows "map_of (f_settings tf) ''defaultValue'' =
           Some (if f_type tf = Val (JStr ''slider'') then get_prop field ''defaultValue''
                 else get_prop field ''defaultChecked'')"
  unfolding transformField_parts(2) [OF assms(1)]
  using assms(2,3)
  by (simp add: transformFieldSettings_def fieldSpecificSettings_def obj_simps)

theorem defaultChecked_precedence_except_slider_witness:
  "transformField sample_host 0 checkbox_field
     = Inr \<lparr>f_id = JStr ''f1'', f_type = Val (JStr ''checkbox''), f_label = JStr ''Agree'',
            f_description = JUndefined, f_placeholder = JUndefined, f_required = JBool False,
            f_validation = [], f_settings = [(''defaultValue'', JBool True)],
            f_options = Some [JStr ''Yes'']\<rparr>
   \<and> get_prop checkbox_field ''defaultValue'' \<noteq> JUndefined
   \<and> get_prop checkbox_field ''defaultChecked'' \<noteq> JUndefined
   \<and> map_of [(''defaultValue'', JBool True)] ''defaultValue''
       = Some (get_prop checkbox_field ''defaultChecked'')"
proof -
  have e: "transformField sample_host 0 checkbox_field
     = Inr \<lparr>f_id = JStr ''f1'', f_type = Val (JStr ''checkbox''), f_label = JStr ''Agree'',
            f_description = JUndefined, f_placeholder = JUndefined, f_required = JBool False,
            f_validation = [], f_settings = [(''defaultValue'', JBool True)],
            f_options = Some [JStr ''Yes'']\<rparr>"
    by code_simp
  have p: "get_prop checkbox_field ''defaultValue'' \<noteq> JUndefined"
          "get_prop checkbox_field ''defaultChecked'' \<noteq> JUndefined"
    by (simp_all add: checkbox_field_def)
  show ?thesis
    using defaultChecked_precedence_except_slider [OF e p] p
    by (simp add: e)
qed

lemma mapFieldType_multi_select: "mapFieldType ''multi_select'' = Val (JStr ''select'')"
  by (simp add: mapFieldType_def index_SUPPORTED_FIELD_TYPES_def SUPPORTED_FIELD_TYPES_def)

lemma mapFieldType_select: "mapFieldType ''select'' = Val (JStr ''select'')"
  by (simp add: mapFieldType_def index_SUPPORTED_FIELD_TYPES_def SUPPORTED_FIELD_TYPES_def)

lemma allowMultiple_absent:
  "get_prop field ''type'' \<noteq> JStr ''multi_select'' \<Longrightarrow>
   map_of (transformFieldSettings field ty) ''allowMultiple'' = None"
  by (simp add: transformFieldSettings_def fieldSpecificSettings_def obj_simps)

lemma allowMultiple_select:
  "get_prop field ''type'' = JStr ''multi_select'' \<Longrightarrow>
   map_of (transformFieldSettings field (Val (JStr ''select''))) ''allowMultiple''
     = Some (JBool True)"
  by (simp add: transformFieldSettings_def fieldSpecificSettings_def obj_simps)

text \<open>
  C7: for every transformed field the settings hold \<open>allowMultiple\<close> exactly when the
  import's type is the string \<open>multi_select\<close>, and then its value is \<open>true\<close>; such a
  field resolves to the type \<open>select\<close>, and so does a field whose import type is
  \<open>select\<close>, which gets no \<open>allowMultiple\<close>.
\<close>

theorem allowMultiple_iff_multi_select:
  assumes "transformField h i field = Inr tf"
  shows "map_of (f_settings tf) ''allowMultiple'' =
           (if get_prop field ''type'' = JStr ''multi_select'' then Some (JBool True) else None)
       \<and> (get_prop field ''type'' = JStr ''multi_select'' \<longrightarrow> f_type tf = Val (JStr ''select''))
       \<and> (get_prop field ''type'' = JStr ''select'' \<longrightarrow>
            f_type tf = Val (JStr ''select'') \<and> map_of (f_settings tf) ''allowMultiple'' = None)"
proof -
  note p = transformField_parts [OF assms]
  have ms: "f_type tf = Val (JStr ''select'')" if "get_prop field ''type'' = JStr ''multi_select''"
    using p(3) that by (simp add: mapFieldType_untyped_def mapFieldType_multi_select)
  have sel: "f_type tf = Val (JStr ''select'')" if "get_prop field ''type'' = JStr ''select''"
    using p(3) that by (simp add: mapFieldType_untyped_def mapFieldType_select)
  show ?thesis
  proof (cases "get_prop field ''type'' = JStr ''multi_select''")
    case True
    with ms sel show ?thesis
      by (simp add: p(2) allowMultiple_select)
  next
    case False
    with sel show ?thesis
      by (simp add: p(2) allowMultiple_absent)
  qed
qed

theorem allowMultiple_iff_multi_select_witness:
  "transformField sample_host 0 multi_select_field
     = Inr \<lparr>f_id = JStr ''f1'', f_type = Val (JStr ''select''), f_label = JStr ''Pick'',
            f_description = JUndefined, f_placeholder = JUndefined, f_required = JBool False,
            f_validation = [], f_settings = [(''allowMultiple'', JBool True)],
            f_options = Some [JStr ''A'', JStr ''B'']\<rparr>
   \<and> transformField sample_host 0 select_field
     = Inr \<lparr>f_id = JStr ''f2'', f_type = Val (JStr ''select''), f_label = JStr ''One'',
            f_description = JUndefined, f_placeholder = JUndefined, f_required = JBool False,
            f_validation = [], f_settings = [],
            f_options = Some [JStr ''A'']\<rparr>
   \<and> get_prop multi_select_field ''type'' = JStr ''multi_select''
   \<and> get_prop select_field ''type'' = JStr ''select''
   \<and> map_of [(''allowMultiple'', JBool True)] ''allowMultiple'' = Some (JBool True)
   \<and> map_of ([] :: (string \<times> json) list) ''allowMultiple'' = None"
proof -
  have m: "transformField sample_host 0 multi_select_field
     = Inr \<lparr>f_id = JStr ''f1'', f_type = Val (JStr ''select''), f_label = JStr ''Pick'',
            f_description = JUndefined, f_placeholder = JUndefined, f_required = JBool False,
            f_validation = [], f_settings = [(''allowMultiple'', JBool True)],
            f_options = Some [JStr ''A'', JStr ''B'']\<rparr>"
    by code_simp
  have s: "transformField sample_host 0 select_field
     = Inr \<lparr>f_id = JStr ''f2'', f_type = Val (JStr ''select''), f_label = JStr ''One'',
            f_description = JUndefined, f_placeholder = JUndefined, f_required = JBool False,
            f_validation = [], f_settings = [],
            f_options = Some [JStr ''A'']\<rparr>"
    by code_simp
  have t: "get_prop multi_select_field ''type'' = JStr ''multi_select''"
          "get_prop select_field ''type'' = JStr ''select''"
    by (simp_all add: multi_select_field_def select_field_def)
  show ?thesis
    using allowMultiple_iff_multi_select [OF m] allowMultiple_iff_multi_select [OF s] t
    by (simp add: m s)
qed

lemma transformFields_nth:
  "transformFields h i xs = Inr ys \<Longrightarrow>
   length ys = length xs \<and> (\<forall>j < length xs. transformField h (i + j) (xs ! j) = Inr (ys ! j))"
proof (induction xs arbitrary: i ys)
  case Nil
  then show ?case by simp
next
  case (Cons x xs)
  from Cons.prems obtain y ys' where
    y: "transformField h i x = Inr y" and
    ys': "transformFields h (Suc i) xs = Inr ys'" and
    ys: "ys = y # ys'"
    by (auto simp: bindE_def split: sum.splits)
  from Cons.IH [OF ys'] have
    len: "length ys' = length xs" and
    nth: "\<And>j. j < length xs \<Longrightarrow> transformField h (Suc i + j) (xs ! j) = Inr (ys' ! j)"
    by auto
  show ?case
  proof (intro conjI allI impI)
    show "length ys = length (x # xs)" using len ys by simp
  next
    fix j assume "j < length (x # xs)"
    then show "transformField h (i + j) ((x # xs) ! j) = Inr (ys ! j)"
      using y nth ys by (cases j) auto
  qed
qed

text \<open>
  C9: a form schema that \<open>createFormSchema\<close> produces has exactly one block, with the
  settings \<open>{showStepNumber: false, layout: 'single', spacing: 'normal'}\<close>; the block's
  fields are the transformed fields of the import's \<open>fields\<close> array, one for each and in
  its order; the schema's own field list is that same list; and its \<open>logic\<close> is the
  \<open>logic\<close> of the default schema created for the import's title and description.
\<close>

theorem createFormSchema_shape:
  assumes "createFormSchema h importedSchema = Inr fs"
  shows "\<exists>block base xs.
           s_blocks fs = [block]
         \<and> b_settings block = \<lparr>showStepNumber = False, layout = ''single'', spacing = ''normal''\<rparr>
         \<and> get_prop importedSchema ''fields'' = JArr xs
         \<and> length (b_fields block) = length xs
         \<and> (\<forall>j < length xs. transformField h j (xs ! j) = Inr (b_fields block ! j))
         \<and> s_fields fs = b_fields block
         \<and> createDefaultFormSchema h (get_prop importedSchema ''title'')
              (if truthy (get_prop importedSchema ''description'')
               then get_prop importedSchema ''description'' else JStr [])
              False = Inr base
         \<and> s_logic fs = s_logic base"
proof -
  from assms obtain base where
    base: "createDefaultFormSchema h (get_prop importedSchema ''title'')
              (if truthy (get_prop importedSchema ''description'')
               then get_prop importedSchema ''description'' else JStr [])
              False = Inr base"
    by (auto simp: createFormSchema_def bindE_def read_prop_def split: sum.splits if_splits)
  from assms base obtain xs tfs where
    xs: "get_prop importedSchema ''fields'' = JArr xs" and
    tfs: "transformFields h 0 xs = Inr tfs"
    by (auto simp: createFormSchema_def bindE_def read_prop_def
          split: sum.splits if_splits json.splits)
  from assms base xs tfs obtain st where
    fs: "fs = \<lparr>s_blocks = [\<lparr>b_id = generateBlockId h (length tfs), b_title = ''Main'',
                              b_description = [], b_fields = tfs,
                              b_settings = \<lparr>showStepNumber = False, layout = ''single'',
                                            spacing = ''normal''\<rparr>\<rparr>],
               s_fields = tfs, s_settings = st, s_logic = s_logic base\<rparr>"
    by (auto simp: createFormSchema_def bindE_def read_prop_def Let_def
          split: sum.splits if_splits)
  from transformFields_nth [OF tfs] have
    "length tfs = length xs" "\<forall>j < length xs. transformField h j (xs ! j) = Inr (tfs ! j)"
    by auto
  with fs xs base show ?thesis by simp
qed

theorem createFormSchema_shape_witness:
  "createFormSchema sample_host multi_select_doc
     = Inr \<lparr>s_blocks =
              [\<lparr>b_id = ''block_1700000000000_k3x91'', b_title = ''Main'', b_description = [],
                b_fields =
                  [\<lparr>f_id = JStr ''f1'', f_type = Val (JStr ''select''), f_label = JStr ''Pick'',
                    f_description = JUndefined, f_placeholder = JUndefined,
                    f_required = JBool False, f_validation = [],
                    f_settings = [(''allowMultiple'', JBool True)],
                    f_options = Some [JStr ''A'', JStr ''B'']\<rparr>],
                b_settings = \<lparr>showStepNumber = False, layout = ''single'',
                              spacing = ''normal''\<rparr>\<rparr>],
            s_fields =
              [\<lparr>f_id = JStr ''f1'', f_type = Val (JStr ''select''), f_label = JStr ''Pick'',
                f_description = JUndefined, f_placeholder = JUndefined,
                f_required = JBool False, f_validation = [],
                f_settings = [(''allowMultiple'', JBool True)],
                f_options = Some [JStr ''A'', JStr ''B'']\<rparr>],
            s_settings = [(''title'', JStr ''T''), (''description'', JStr []),
                          (''multiStep'', JBool False)],
            s_logic = JArr []\<rparr>
   \<and> (\<exists>fs block. createFormSchema sample_host multi_select_doc = Inr fs
        \<and> s_blocks fs = [block] \<and> s_fields fs = b_fields block
        \<and> length (b_fields block) = 1
        \<and> transformField sample_host 0 multi_select_field = Inr (b_fields block ! 0))"
proof -
  have e: "createFormSchema sample_host multi_select_doc
     = Inr \<lparr>s_blocks =
              [\<lparr>b_id = ''block_1700000000000_k3x91'', b_title = ''Main'', b_description = [],
                b_fields =
                  [\<lparr>f_id = JStr ''f1'', f_type = Val (JStr ''select''), f_label = JStr ''Pick'',
                    f_description = JUndefined, f_placeholder = JUndefined,
                    f_required = JBool False, f_validation = [],
                    f_settings = [(''allowMultiple'', JBool True)],
                    f_options = Some [JStr ''A'', JStr ''B'']\<rparr>],
                b_settings = \<lparr>showStepNumber = False, layout = ''single'',
                              spacing = ''normal''\<rparr>\<rparr>],
            s_fields =
              [\<lparr>f_id = JStr ''f1'', f_type = Val (JStr ''select''), f_label = JStr ''Pick'',
                f_description = JUndefined, f_placeholder = JUndefined,
                f_required = JBool False, f_validation = [],
                f_settings = [(''allowMultiple'', JBool True)],
                f_options = Some [JStr ''A'', JStr ''B'']\<rparr>],
            s_settings = [(''title'', JStr ''T''), (''description'', JStr []),
                          (''multiStep'', JBool False)],
            s_logic = JArr []\<rparr>"
    by code_simp
  have f: "get_prop multi_select_doc ''fields'' = JArr [multi_select_field]"
    by (simp add: multi_select_doc_def)
  show ?thesis
    using createFormSchema_shape [OF e] f
    by (auto simp: e)
qed

lemma table_values_nonempty: "map_of SUPPORTED_FIELD_TYPES t = Some v \<Longrightarrow> v \<noteq> []"
proof -
  assume "map_of SUPPORTED_FIELD_TYPES t = Some v"
  then have "(t, v) \<in> set SUPPORTED_FIELD_TYPES"
    by (rule map_of_SomeD)
  moreover have "list_all (\<lambda>kv. snd kv \<noteq> []) SUPPORTED_FIELD_TYPES"
    by (simp add: SUPPORTED_FIELD_TYPES_def)
  ultimately show "v \<noteq> []"
    by (auto simp: list_all_iff)
qed

text \<open>
  What \<open>mapFieldType\<close> returns: the internal name for a key of the table, and the
  argument itself for a string that is neither a key nor the name of an inherited member.
\<close>

lemma mapFieldType_key:
  "map_of SUPPORTED_FIELD_TYPES t = Some v \<Longrightarrow> mapFieldType t = Val (JStr v)"
  using table_values_nonempty [of t v]
  by (simp add: mapFieldType_def index_SUPPORTED_FIELD_TYPES_def)

lemma mapFieldType_other:
  "map_of SUPPORTED_FIELD_TYPES t = None \<Longrightarrow> t \<notin> set Object_prototype_members \<Longrightarrow>
   mapFieldType t = Val (JStr t)"
  by (simp add: mapFieldType_def index_SUPPORTED_FIELD_TYPES_def)

lemma members_not_keys:
  "t \<in> set Object_prototype_members \<Longrightarrow> map_of SUPPORTED_FIELD_TYPES t = None"
proof -
  have "list_all (\<lambda>m. map_of SUPPORTED_FIELD_TYPES m = None) Object_prototype_members"
    by (simp add: Object_prototype_members_def SUPPORTED_FIELD_TYPES_def)
  then show "t \<in> set Object_prototype_members \<Longrightarrow> map_of SUPPORTED_FIELD_TYPES t = None"
    by (simp add: list_all_iff)
qed

lemma mapFieldType_member: "t \<in> set Object_prototype_members \<Longrightarrow> mapFieldType t = Member t"
  by (simp add: mapFieldType_def index_SUPPORTED_FIELD_TYPES_def members_not_keys)

lemma transformField_carries_unsupported_type:
  assumes "transformField h i field = Inr tf"
    and "get_prop field ''type'' = JStr t"
    and "map_of SUPPORTED_FIELD_TYPES t = None"
    and "t \<notin> set Object_prototype_members"
  shows "f_type tf = Val (JStr t)"
  using transformField_parts(3) [OF assms(1)] assms(2-4)
  by (simp add: mapFieldType_untyped_def mapFieldType_other)

text \<open>
  C10 (the code departs from the claim): the string \<open>constructor\<close> is no key of the table
  of supported types, yet \<open>mapFieldType\<close> does not return it unchanged: indexing the
  table finds the member that the object literal inherits, and that member is returned.
  The validator accepts the type for the same reason, and the transformed field carries
  the inherited member as its type.
\<close>

theorem mapFieldType_inherited_member:
  "map_of SUPPORTED_FIELD_TYPES ''constructor'' = None
   \<and> mapFieldType ''constructor'' = Member ''constructor''
   \<and> mapFieldType ''constructor'' \<noteq> Val (JStr ''constructor'')
   \<and> isValid (validate h constructor_doc)
   \<and> map_sum id f_type (transformField h 0 constructor_field) = Inr (Member ''constructor'')"
proof -
  have m: "''constructor'' \<in> set Object_prototype_members"
    by (simp add: Object_prototype_members_def)
  have v: "isValid (validate h constructor_doc)"
    by (simp add: constructor_doc_def constructor_field_def validator_defs vm_defs
          string_of_nat.simps digit_char_def)
  have t: "map_sum id f_type (transformField h 0 constructor_field) = Inr (Member ''constructor'')"
    by (simp add: constructor_field_def transformField_def mapFieldType_untyped_def
          mapFieldType_member [OF m] transformOptions_def bindE_def)
  from members_not_keys [OF m] mapFieldType_member [OF m] v t show ?thesis
    by simp
qed

text \<open>
  The schema in a result of \<open>transformJsonToFormSchema\<close> is the one that
  \<open>createFormSchema\<close> returned for the validated input.
\<close>

lemma produced_schema_is_createFormSchema:
  assumes "transformJsonToFormSchema h jsonData = Inr r" and "formSchema r = Some fs"
  shows "isValid (validate h jsonData) \<and> createFormSchema h jsonData = Inr fs"
proof (cases "isValid (validateJsonSchema h jsonData)")
  case False
  with assms show ?thesis
    by (auto simp: transformJsonToFormSchema_def try_block_def Let_def)
next
  case True
  with assms show ?thesis
    by (cases "createFormSchema h jsonData")
       (auto simp: transformJsonToFormSchema_def try_block_def Let_def bindE_def
          validateJsonSchema_def)
qed

text \<open>
  \<open>transformField\<close> returns a field for every object whose type is a string and whose
  \<open>options\<close> member is absent (or falsy) or an array without \<open>null\<close>.
\<close>

lemma mapE_transformOption_returns:
  "JNull \<notin> set xs \<Longrightarrow> \<exists>ys. mapE transformOption xs = Inr ys"
proof (induction xs)
  case Nil
  show ?case by simp
next
  case (Cons x xs)
  then obtain ys where ys: "mapE transformOption xs = Inr ys"
    by auto
  from Cons.prems have "x \<noteq> JNull" by auto
  then have "\<exists>y. transformOption x = Inr y"
    by (cases x) (simp_all add: transformOption_def read_prop_def bindE_def)
  then obtain y where "transformOption x = Inr y" ..
  with ys show ?case
    by (simp add: bindE_def)
qed

lemma transformField_returns:
  assumes "\<not> is_nullish field" and "get_prop field ''type'' = JStr t"
    and "\<not> truthy (get_prop field ''options'')
         \<or> (\<exists>xs. get_prop field ''options'' = JArr xs \<and> JNull \<notin> set xs)"
  shows "\<exists>tf. transformField h i field = Inr tf"
proof -
  from assms(3) obtain opts where "transformOptions (get_prop field ''options'') = Inr opts"
  proof
    assume "\<not> truthy (get_prop field ''options'')"
    then have "transformOptions (get_prop field ''options'') = Inr None"
      by (simp add: transformOptions_def)
    then show ?thesis by (rule that)
  next
    assume "\<exists>xs. get_prop field ''options'' = JArr xs \<and> JNull \<notin> set xs"
    then obtain xs where xs: "get_prop field ''options'' = JArr xs" "JNull \<notin> set xs"
      by auto
    from mapE_transformOption_returns [OF xs(2)] obtain ys where
      "mapE transformOption xs = Inr ys" by auto
    with xs(1) have "\<exists>opts. transformOptions (JArr xs) = Inr opts"
      by (simp add: transformOptions_def bindE_def)
    with xs(1) show ?thesis by (auto intro: that)
  qed
  with assms(1,2) show ?thesis
    by (simp add: transformField_def mapFieldType_untyped_def bindE_def Let_def)
qed

end
